theory Spec2Isabelle
  imports Complex_Main
begin

section \<open>Data model\<close>

text \<open>
  The importers of \<^verbatim>\<open>app/erp_import.py\<close> read report tables and write the ledger
  (\<^verbatim>\<open>models.Sales\<close>), discount and inventory tables of one company. The Django models
  themselves (\<^verbatim>\<open>app.models\<close>, \<^verbatim>\<open>app.report_models\<close>) are not part of the sources, so the
  records below hold exactly the fields the importers read or write. A date is its day
  number, a \<^verbatim>\<open>Decimal\<close> is a rational number (decimal arithmetic on the bounded
  \<^verbatim>\<open>DecimalField\<close> values is exact), a company is its primary key (its name), a nullable
  character field is a \<open>string option\<close>.
\<close>

type_synonym date = int
type_synonym decimal = rat

record DateRangeArgs =
  fromd :: date
  tod :: date

record SalesRegisterReport =
  sr_company :: string
  sr_type :: string
  sr_inum :: string
  sr_date :: date
  sr_party_id :: string
  sr_ctin :: "string option"
  sr_amt :: decimal
  sr_btpr :: decimal
  sr_outpyt :: decimal
  sr_ushop :: decimal
  sr_pecom :: decimal
  sr_other_discount :: decimal
  sr_roundoff :: decimal
  sr_tcs :: decimal
  sr_tds :: decimal

record IkeaGSTR1Report =
  ig_company :: string
  ig_type :: string
  ig_inum :: string
  ig_date :: date
  ig_credit_note_no :: string
  ig_original_invoice_no :: string
  ig_ctin :: "string option"
  ig_inv_amt :: decimal
  ig_stock_id :: string
  ig_qty :: decimal
  ig_rt :: decimal
  ig_txval :: decimal

record DmgShtReport =
  ds_company :: string
  ds_return_from :: string
  ds_type :: string
  ds_inum :: string
  ds_date :: date
  ds_party_id :: string
  ds_stock_id :: string
  ds_qty :: decimal
  ds_amt :: decimal

record Stock =
  st_company :: string
  st_name :: string
  st_hsn :: string
  st_rt :: decimal

record Sales =
  s_company_id :: string
  s_type :: string
  s_inum :: string
  s_date :: date
  s_party_id :: string
  s_amt :: decimal
  s_ctin :: "string option"
  s_discount :: decimal
  s_roundoff :: decimal
  s_tcs :: decimal
  s_tds :: decimal

record Discount =
  d_company_id :: string
  d_bill_id :: string
  d_sub_type :: string
  d_amt :: decimal

record Inventory =
  i_company_id :: string
  i_bill_id :: string
  i_stock_id :: string
  i_qty :: decimal
  i_rt :: decimal
  i_txval :: decimal

text \<open>
  The tabular store: every table is the list of its rows, and a query set without
  \<^verbatim>\<open>order_by\<close> yields the rows in table order.
\<close>

record db =
  SalesRegisterReport_tbl :: "SalesRegisterReport list"
  IkeaGSTR1Report_tbl :: "IkeaGSTR1Report list"
  DmgShtReport_tbl :: "DmgShtReport list"
  Stock_tbl :: "Stock list"
  Sales_tbl :: "Sales list"
  Discount_tbl :: "Discount list"
  Inventory_tbl :: "Inventory list"

text \<open>
  The importers construct \<^verbatim>\<open>SalesRegisterReport(...)\<close> and \<^verbatim>\<open>models.Sales(...)\<close> with some
  keyword arguments only; the other fields take the defaults the model classes declare.
  The classes are not in the sources, so the two freshly constructed objects are
  parameters of the importers.
\<close>

record model_defaults =
  SalesRegisterReport_new :: SalesRegisterReport
  Sales_new :: Sales

datatype error = IndexError | ValueError | ZeroDivisionError | IntegrityError

text \<open>The lines the importers print.\<close>

datatype diagnostic =
  NoMatchingCreditNote string date
| StockRateNotFound string

text \<open>
  What a run leaves behind: the lines printed, the store, and the exception that
  reached the caller, if any.
\<close>

record run_result =
  stdout :: "diagnostic list"
  store :: db
  raised :: "error option"

section \<open>Deleting and inserting\<close>

text \<open>
  Modelled from the spec: \<^verbatim>\<open>app.models\<close> is missing. A ledger row is identified by
  (company, invoice number) (``unique per (tenant, invoice number)''), and discount and
  inventory rows refer to their ledger row through \<^verbatim>\<open>bill_id\<close>; deleting ledger rows
  deletes the rows that refer to them (``cascading delete'' in \<^verbatim>\<open>DateImport.basic_run\<close>).
\<close>

definition sales_pk :: "Sales \<Rightarrow> string \<times> string" where
  "sales_pk s = (s_company_id s, s_inum s)"

definition delete_pks :: "(string \<times> string) list \<Rightarrow> db \<Rightarrow> db" where
  "delete_pks pks d =
     d\<lparr>Sales_tbl := filter (\<lambda>s. sales_pk s \<notin> set pks) (Sales_tbl d),
       Discount_tbl := filter (\<lambda>x. (d_company_id x, d_bill_id x) \<notin> set pks) (Discount_tbl d),
       Inventory_tbl := filter (\<lambda>x. (i_company_id x, i_bill_id x) \<notin> set pks) (Inventory_tbl d)\<rparr>"

text \<open>
  \<^verbatim>\<open>batch_delete\<close> reads the primary keys of the query set and deletes them batch by batch:
  \<^verbatim>\<open>for i in range(0, len(pks), batch_size): ... filter(pk__in=pks[i : i + batch_size]).delete()\<close>.
  The loop is never entered with a batch size of 0 (see \<open>batch_delete\<close> below).
\<close>

function batch_delete_loop :: "(string \<times> string) list \<Rightarrow> nat \<Rightarrow> db \<Rightarrow> db" where
  "batch_delete_loop pks batch_size d =
     (if batch_size = 0 \<or> pks = [] then d
      else batch_delete_loop (drop batch_size pks) batch_size
             (delete_pks (take batch_size pks) d))"
  by pat_completeness auto
termination
  by (relation "measure (\<lambda>(pks, batch_size, d). length pks)") auto

declare batch_delete_loop.simps [simp del]

text \<open>\<^verbatim>\<open>range\<close> with step 0 raises \<^verbatim>\<open>ValueError\<close>.\<close>

definition batch_delete :: "(Sales \<Rightarrow> bool) \<Rightarrow> nat \<Rightarrow> db \<Rightarrow> error + db" where
  "batch_delete queryset batch_size d =
     (let pks = map sales_pk (filter queryset (Sales_tbl d))
      in if batch_size = 0 then Inl ValueError
         else Inr (batch_delete_loop pks batch_size d))"

text \<open>
  The constraints that the model classes declare on the tables (primary and unique keys,
  foreign keys) are not in the sources either: they are a parameter of the importers, a
  predicate on the store. A \<^verbatim>\<open>bulk_create\<close> whose rows would leave the store violating it
  raises \<^verbatim>\<open>IntegrityError\<close>, and otherwise appends the rows.
\<close>

type_synonym constraints = "db \<Rightarrow> bool"

definition bulk_create_Sales :: "constraints \<Rightarrow> Sales list \<Rightarrow> db \<Rightarrow> error + db" where
  "bulk_create_Sales valid objs d =
     (let d' = d\<lparr>Sales_tbl := Sales_tbl d @ objs\<rparr>
      in if valid d' then Inr d' else Inl IntegrityError)"

definition bulk_create_Discount :: "constraints \<Rightarrow> Discount list \<Rightarrow> db \<Rightarrow> error + db" where
  "bulk_create_Discount valid objs d =
     (let d' = d\<lparr>Discount_tbl := Discount_tbl d @ objs\<rparr>
      in if valid d' then Inr d' else Inl IntegrityError)"

definition bulk_create_Inventory :: "constraints \<Rightarrow> Inventory list \<Rightarrow> db \<Rightarrow> error + db" where
  "bulk_create_Inventory valid objs d =
     (let d' = d\<lparr>Inventory_tbl := Inventory_tbl d @ objs\<rparr>
      in if valid d' then Inr d' else Inl IntegrityError)"

text \<open>
  \<^verbatim>\<open>@transaction.atomic\<close>: the body runs on the store; when it raises, the store is the
  one before the call and the exception goes on to the caller. What was printed stays
  printed. Both \<^verbatim>\<open>run_atomic\<close> methods below carry the decorator; neither calls
  \<^verbatim>\<open>DateImport.basic_run\<close>, which is therefore not part of the model.
\<close>

definition transaction_atomic :: "(db \<Rightarrow> run_result) \<Rightarrow> db \<Rightarrow> run_result" where
  "transaction_atomic body d =
     (let r = body d
      in case raised r of None \<Rightarrow> r | Some e \<Rightarrow> r\<lparr>store := d\<rparr>)"

section \<open>SalesImport\<close>

definition TDS_PERCENT :: decimal where
  "TDS_PERCENT = 2"

definition SalesImport_delete_before_insert :: "string \<Rightarrow> DateRangeArgs \<Rightarrow> db \<Rightarrow> error + db" where
  "SalesImport_delete_before_insert company args d =
     batch_delete
       (\<lambda>s. s_company_id s = company \<and> fromd args \<le> s_date s \<and> s_date s \<le> tod args
            \<and> s_type s \<in> set [''sales'', ''salesreturn'', ''claimservice''])
       100 d"

definition sales_qs :: "string \<Rightarrow> DateRangeArgs \<Rightarrow> db \<Rightarrow> SalesRegisterReport list" where
  "sales_qs company args d =
     filter (\<lambda>r. sr_company r = company \<and> fromd args \<le> sr_date r \<and> sr_date r \<le> tod args)
       (SalesRegisterReport_tbl d)"

definition inventory_qs :: "string \<Rightarrow> DateRangeArgs \<Rightarrow> db \<Rightarrow> IkeaGSTR1Report list" where
  "inventory_qs company args d =
     filter (\<lambda>r. ig_company r = company \<and> fromd args \<le> ig_date r \<and> ig_date r \<le> tod args)
       (IkeaGSTR1Report_tbl d)"

definition sales_objs :: "string \<Rightarrow> DateRangeArgs \<Rightarrow> db \<Rightarrow> SalesRegisterReport list" where
  "sales_objs company args d = filter (\<lambda>r. sr_type r = ''sales'') (sales_qs company args d)"

definition sales_inventory_objs :: "string \<Rightarrow> DateRangeArgs \<Rightarrow> db \<Rightarrow> IkeaGSTR1Report list" where
  "sales_inventory_objs company args d =
     filter (\<lambda>r. ig_type r = ''sales'') (inventory_qs company args d)"

text \<open>
  \<^verbatim>\<open>order_by\<close> is a stable sort on the key (the order of rows with equal keys is the
  table's).
\<close>

definition salesreturn_objs :: "string \<Rightarrow> DateRangeArgs \<Rightarrow> db \<Rightarrow> SalesRegisterReport list" where
  "salesreturn_objs company args d =
     sort_key sr_amt (filter (\<lambda>r. sr_type r = ''salesreturn'') (sales_qs company args d))"

definition salesreturn_inventory_objs :: "string \<Rightarrow> DateRangeArgs \<Rightarrow> db \<Rightarrow> IkeaGSTR1Report list" where
  "salesreturn_inventory_objs company args d =
     sort_key ig_inv_amt (filter (\<lambda>r. ig_type r = ''salesreturn'') (inventory_qs company args d))"

definition claimservice_inventory_objs :: "string \<Rightarrow> DateRangeArgs \<Rightarrow> db \<Rightarrow> IkeaGSTR1Report list" where
  "claimservice_inventory_objs company args d =
     filter (\<lambda>r. ig_type r = ''claimservice'') (inventory_qs company args d)"

subsection \<open>Sales returns\<close>

text \<open>
  \<^verbatim>\<open>date_original_inum_to_cn\<close> is a \<^verbatim>\<open>defaultdict(list)\<close>: every key has a list, the empty
  one unless something was appended.
\<close>

type_synonym cn_queues = "date \<times> string \<Rightarrow> string list"

text \<open>
  The loop over the inventory-side return rows: the row takes its credit-note number as
  invoice number, its taxable value changes sign, and the credit note is appended to the
  queue of (date, original invoice) unless it is there already.
\<close>

fun credit_note_loop :: "IkeaGSTR1Report list \<Rightarrow> cn_queues \<Rightarrow> IkeaGSTR1Report list \<times> cn_queues" where
  "credit_note_loop [] q = ([], q)"
| "credit_note_loop (obj # objs) q =
     (let obj1 = obj\<lparr>ig_inum := ig_credit_note_no obj\<rparr>;
          obj2 = obj1\<lparr>ig_txval := - ig_txval obj1\<rparr>;
          k = (ig_date obj2, ig_original_invoice_no obj2);
          inums = q k;
          q' = (if ig_inum obj2 \<notin> set inums then q(k := inums @ [ig_credit_note_no obj2]) else q);
          (objs', q'') = credit_note_loop objs q'
      in (obj2 # objs', q''))"

text \<open>
  The loop over the register-side return rows: the roundoff changes sign, a line is
  printed when the queue of (date, invoice number) is empty, and \<^verbatim>\<open>inums.pop(0)\<close> takes
  the first credit note of the queue as the row's invoice number. \<^verbatim>\<open>pop\<close> on an empty
  list raises \<^verbatim>\<open>IndexError\<close>.
\<close>

fun match_loop :: "SalesRegisterReport list \<Rightarrow> cn_queues \<Rightarrow>
    diagnostic list \<times> (error + SalesRegisterReport list)" where
  "match_loop [] q = ([], Inr [])"
| "match_loop (obj # objs) q =
     (let obj1 = obj\<lparr>sr_roundoff := - sr_roundoff obj\<rparr>;
          k = (sr_date obj1, sr_inum obj1);
          inums = q k;
          out = (if length inums = 0 then [NoMatchingCreditNote (sr_inum obj1) (sr_date obj1)] else [])
      in case inums of
           [] \<Rightarrow> (out, Inl IndexError)
         | inum # rest \<Rightarrow>
             (case match_loop objs (q(k := rest)) of
                (out', Inl e) \<Rightarrow> (out @ out', Inl e)
              | (out', Inr objs') \<Rightarrow> (out @ out', Inr (obj1\<lparr>sr_inum := inum\<rparr> # objs'))))"

subsection \<open>Claim service\<close>

text \<open>
  The two \<^verbatim>\<open>defaultdict\<close>s of the claim-service loop start every invoice number at 0.
\<close>

fun claimservice_loop :: "IkeaGSTR1Report list \<Rightarrow> (string \<Rightarrow> decimal) \<times> (string \<Rightarrow> decimal) \<Rightarrow>
    (string \<Rightarrow> decimal) \<times> (string \<Rightarrow> decimal)" where
  "claimservice_loop [] (claimservice_txval, claimservice_tax) = (claimservice_txval, claimservice_tax)"
| "claimservice_loop (inv_obj # objs) (claimservice_txval, claimservice_tax) =
     claimservice_loop objs
       (claimservice_txval(ig_inum inv_obj := claimservice_txval (ig_inum inv_obj) + ig_txval inv_obj),
        claimservice_tax(ig_inum inv_obj :=
          claimservice_tax (ig_inum inv_obj) + 2 * ig_txval inv_obj * ig_rt inv_obj / 100))"

text \<open>
  \<^verbatim>\<open>.distinct("inum")\<close> keeps one row of every invoice number. The query has no
  \<^verbatim>\<open>order_by\<close>: here the row kept is the first one in table order, and the rows come in
  the order of their first occurrence.
\<close>

fun distinct_inum :: "IkeaGSTR1Report list \<Rightarrow> IkeaGSTR1Report list" where
  "distinct_inum [] = []"
| "distinct_inum (r # rs) = r # distinct_inum (filter (\<lambda>x. ig_inum x \<noteq> ig_inum r) rs)"

definition claimservice_obj :: "model_defaults \<Rightarrow> string \<Rightarrow>
    (string \<Rightarrow> decimal) \<times> (string \<Rightarrow> decimal) \<Rightarrow> IkeaGSTR1Report \<Rightarrow> SalesRegisterReport" where
  "claimservice_obj dflt company acc inv_obj =
     (let txval = fst acc (ig_inum inv_obj);
          tax = snd acc (ig_inum inv_obj);
          tds = (txval * TDS_PERCENT) / 100
      in (SalesRegisterReport_new dflt)\<lparr>
           sr_company := company,
           sr_type := ''claimservice'',
           sr_inum := ig_inum inv_obj,
           sr_date := ig_date inv_obj,
           sr_party_id := ''HUL'',
           sr_ctin := ig_ctin inv_obj,
           sr_amt := txval + tax - tds,
           sr_tds := tds\<rparr>)"

definition claimservice_objs :: "model_defaults \<Rightarrow> string \<Rightarrow> IkeaGSTR1Report list \<Rightarrow>
    SalesRegisterReport list" where
  "claimservice_objs dflt company inv_objs =
     (let acc = claimservice_loop inv_objs (\<lambda>_. 0, \<lambda>_. 0)
      in map (claimservice_obj dflt company acc) (distinct_inum inv_objs))"

subsection \<open>The three streams\<close>

definition model_sales_obj :: "string \<Rightarrow> SalesRegisterReport \<Rightarrow> Sales" where
  "model_sales_obj company qs =
     \<lparr>s_company_id = company,
      s_type = sr_type qs,
      s_inum = sr_inum qs,
      s_date = sr_date qs,
      s_party_id = sr_party_id qs,
      s_amt = - sr_amt qs,
      s_ctin = sr_ctin qs,
      s_discount = - (sr_btpr qs + sr_outpyt qs + sr_ushop qs + sr_pecom qs + sr_other_discount qs),
      s_roundoff = sr_roundoff qs,
      s_tcs = sr_tcs qs,
      s_tds = - sr_tds qs\<rparr>"

definition discount_fields :: "SalesRegisterReport \<Rightarrow> (string \<times> decimal) list" where
  "discount_fields qs =
     [(''btpr'', sr_btpr qs),
      (''outpyt'', sr_outpyt qs),
      (''ushop'', sr_ushop qs),
      (''pecom'', sr_pecom qs),
      (''other_discount'', sr_other_discount qs)]"

definition model_discount_objs_of :: "string \<Rightarrow> SalesRegisterReport \<Rightarrow> Discount list" where
  "model_discount_objs_of company qs =
     map (\<lambda>(discount, v). \<lparr>d_company_id = company, d_bill_id = sr_inum qs,
                            d_sub_type = discount, d_amt = - v\<rparr>)
       (filter (\<lambda>(discount, v). v \<noteq> 0) (discount_fields qs))"

text \<open>
  \<^verbatim>\<open>exclude(btpr=0, outpyt=0, ushop=0, pecom=0, other_discount=0)\<close> drops the rows that
  satisfy all five conditions.
\<close>

definition exclude_zero_discounts :: "SalesRegisterReport list \<Rightarrow> SalesRegisterReport list" where
  "exclude_zero_discounts objs =
     filter (\<lambda>r. \<not> (sr_btpr r = 0 \<and> sr_outpyt r = 0 \<and> sr_ushop r = 0 \<and> sr_pecom r = 0
                    \<and> sr_other_discount r = 0)) objs"

definition model_inventory_obj :: "string \<Rightarrow> IkeaGSTR1Report \<Rightarrow> Inventory" where
  "model_inventory_obj company qs =
     \<lparr>i_company_id = company,
      i_bill_id = ig_inum qs,
      i_stock_id = ig_stock_id qs,
      i_qty = ig_qty qs,
      i_rt = ig_rt qs,
      i_txval = ig_txval qs\<rparr>"

text \<open>
  Everything \<^verbatim>\<open>SalesImport.run_atomic\<close> computes between the delete and the three
  \<^verbatim>\<open>bulk_create\<close> calls: the lines printed, and either the exception raised or the ledger,
  discount and inventory objects to insert.
\<close>

definition SalesImport_transform :: "model_defaults \<Rightarrow> string \<Rightarrow> DateRangeArgs \<Rightarrow> db \<Rightarrow>
    diagnostic list \<times> (error + Sales list \<times> Discount list \<times> Inventory list)" where
  "SalesImport_transform dflt company args d =
     (let (sr_inv, date_original_inum_to_cn) =
            credit_note_loop (salesreturn_inventory_objs company args d) (\<lambda>_. [])
      in case match_loop (salesreturn_objs company args d) date_original_inum_to_cn of
           (out, Inl e) \<Rightarrow> (out, Inl e)
         | (out, Inr sr_objs) \<Rightarrow>
             (let cs_inv = claimservice_inventory_objs company args d;
                  cs_objs = claimservice_objs dflt company cs_inv;
                  model_sales_objs =
                    map (model_sales_obj company) (sales_objs company args d @ sr_objs @ cs_objs);
                  model_discount_objs =
                    concat (map (model_discount_objs_of company)
                      (exclude_zero_discounts (sales_objs company args d) @ sr_objs @ cs_objs));
                  model_inventory_objs =
                    map (model_inventory_obj company)
                      (sales_inventory_objs company args d @ sr_inv @ cs_inv)
              in (out, Inr (model_sales_objs, model_discount_objs, model_inventory_objs))))"

text \<open>
  \<^verbatim>\<open>SalesImport.run_atomic\<close> without its decorator: the delete, the transform and the three
  inserts. When a step raises, the store is the one the steps before it have left.
\<close>

definition SalesImport_body :: "constraints \<Rightarrow> model_defaults \<Rightarrow> string \<Rightarrow> DateRangeArgs \<Rightarrow> db \<Rightarrow>
    run_result" where
  "SalesImport_body valid dflt company args d =
     (case SalesImport_delete_before_insert company args d of
        Inl e \<Rightarrow> \<lparr>stdout = [], store = d, raised = Some e\<rparr>
      | Inr d1 \<Rightarrow>
          (case SalesImport_transform dflt company args d1 of
             (out, Inl e) \<Rightarrow> \<lparr>stdout = out, store = d1, raised = Some e\<rparr>
           | (out, Inr (model_sales_objs, model_discount_objs, model_inventory_objs)) \<Rightarrow>
               (case bulk_create_Sales valid model_sales_objs d1 of
                  Inl e \<Rightarrow> \<lparr>stdout = out, store = d1, raised = Some e\<rparr>
                | Inr d2 \<Rightarrow>
                    (case bulk_create_Discount valid model_discount_objs d2 of
                       Inl e \<Rightarrow> \<lparr>stdout = out, store = d2, raised = Some e\<rparr>
                     | Inr d3 \<Rightarrow>
                         (case bulk_create_Inventory valid model_inventory_objs d3 of
                            Inl e \<Rightarrow> \<lparr>stdout = out, store = d3, raised = Some e\<rparr>
                          | Inr d4 \<Rightarrow> \<lparr>stdout = out, store = d4, raised = None\<rparr>)))))"

definition SalesImport_run_atomic :: "constraints \<Rightarrow> model_defaults \<Rightarrow> string \<Rightarrow> DateRangeArgs \<Rightarrow>
    db \<Rightarrow> run_result" where
  "SalesImport_run_atomic valid dflt company args d =
     transaction_atomic (SalesImport_body valid dflt company args) d"

section \<open>MarketReturnImport\<close>

text \<open>
  \<^verbatim>\<open>MarketReturnImport.delete_before_insert\<close> deletes with \<^verbatim>\<open>QuerySet.delete()\<close>, in one
  go.
\<close>

definition MarketReturnImport_delete_before_insert :: "string \<Rightarrow> DateRangeArgs \<Rightarrow> db \<Rightarrow> db" where
  "MarketReturnImport_delete_before_insert company args d =
     delete_pks
       (map sales_pk
         (filter (\<lambda>s. s_company_id s = company \<and> fromd args \<le> s_date s \<and> s_date s \<le> tod args
                       \<and> s_type s \<in> set [''damage'', ''shortage''])
           (Sales_tbl d)))
       d"

text \<open>
  The two annotations of the query: the rate of the first stock row of that name, and
  the tax id of the latest ledger row of that party (\<^verbatim>\<open>order_by("-date")\<close>, first row).
  Either is \<^verbatim>\<open>None\<close> when there is no such row.
\<close>

definition stock_rt_subquery :: "string \<Rightarrow> db \<Rightarrow> string \<Rightarrow> decimal option" where
  "stock_rt_subquery company d stock_id =
     (case filter (\<lambda>s. st_company s = company \<and> st_name s = stock_id) (Stock_tbl d) of
        [] \<Rightarrow> None
      | s # _ \<Rightarrow> Some (st_rt s))"

definition party_ctin_subquery :: "string \<Rightarrow> db \<Rightarrow> string \<Rightarrow> string option" where
  "party_ctin_subquery company d party_id =
     (case sort_key (\<lambda>s. - s_date s)
             (filter (\<lambda>s. s_company_id s = company \<and> s_party_id s = party_id) (Sales_tbl d)) of
        [] \<Rightarrow> None
      | s # _ \<Rightarrow> s_ctin s)"

definition market_returns :: "string \<Rightarrow> db \<Rightarrow> DmgShtReport list" where
  "market_returns company d =
     filter (\<lambda>r. ds_return_from r = ''market'' \<and> ds_company r = company) (DmgShtReport_tbl d)"

text \<open>\<^verbatim>\<open>mr.ctin or None\<close>: the empty string counts as no tax id.\<close>

definition or_None :: "string option \<Rightarrow> string option" where
  "or_None c = (if c = Some [] then None else c)"

text \<open>
  \<^verbatim>\<open>round((float(mr.amt) * 100 / (100 + 2 * float(rt))), 3)\<close> is computed in binary floating
  point. Its value (or the \<^verbatim>\<open>ZeroDivisionError\<close> of a zero denominator) is the parameter
  \<open>float_txval\<close> of the importer, a function of the amount and the rate; the conditional
  around it is the importer's.
\<close>

type_synonym float_expr = "decimal \<Rightarrow> decimal \<Rightarrow> error + decimal"

definition txval_of :: "float_expr \<Rightarrow> decimal \<Rightarrow> decimal \<Rightarrow> error + decimal" where
  "txval_of float_txval amt rt = (if rt \<noteq> 0 then float_txval amt rt else Inr 0)"

text \<open>
  The expression with exact arithmetic in place of floating point: the quotient, rounded
  to three decimal places, halves to the even neighbour.
\<close>

definition round_half_even :: "rat \<Rightarrow> int" where
  "round_half_even x =
     (let f = \<lfloor>x\<rfloor>; r = x - of_int f
      in if r < 1 / 2 then f else if 1 / 2 < r then f + 1 else if even f then f else f + 1)"

definition exact_txval :: float_expr where
  "exact_txval amt rt =
     (if 100 + 2 * rt = 0 then Inl ZeroDivisionError
      else Inr (of_int (round_half_even (amt * 100 / (100 + 2 * rt) * 1000)) / 1000))"

text \<open>
  \<^verbatim>\<open>sales_objects\<close> is a dictionary in insertion order: the list of its items.
\<close>

fun market_return_loop :: "float_expr \<Rightarrow> model_defaults \<Rightarrow> string \<Rightarrow> db \<Rightarrow> DmgShtReport list \<Rightarrow>
    (string \<times> Sales) list \<times> Inventory list \<Rightarrow>
    diagnostic list \<times> (error + (string \<times> Sales) list \<times> Inventory list)" where
  "market_return_loop float_txval dflt company d [] (sales_objects, inventory_objects) =
     ([], Inr (sales_objects, inventory_objects))"
| "market_return_loop float_txval dflt company d (mr # mrs) (sales_objects, inventory_objects) =
     (let ctin = or_None (party_ctin_subquery company d (ds_party_id mr))
      in case stock_rt_subquery company d (ds_stock_id mr) of
           None \<Rightarrow>
             (case market_return_loop float_txval dflt company d mrs (sales_objects, inventory_objects) of
                (out, r) \<Rightarrow> (StockRateNotFound (ds_stock_id mr) # out, r))
         | Some rt \<Rightarrow>
             (case txval_of float_txval (ds_amt mr) rt of
                Inl e \<Rightarrow> ([], Inl e)
              | Inr txval \<Rightarrow>
                  (let sales_objects1 =
                         (if ds_inum mr \<notin> set (map fst sales_objects)
                          then sales_objects @
                            [(ds_inum mr,
                              (Sales_new dflt)\<lparr>
                                s_company_id := company,
                                s_type := ds_type mr,
                                s_inum := ds_inum mr,
                                s_date := ds_date mr,
                                s_party_id := ds_party_id mr,
                                s_ctin := ctin,
                                s_amt := 0\<rparr>)]
                          else sales_objects);
                       sales_objects2 =
                         map (\<lambda>(k, s). if k = ds_inum mr then (k, s\<lparr>s_amt := s_amt s + ds_amt mr\<rparr>)
                                        else (k, s))
                           sales_objects1;
                       inventory_objects1 =
                         inventory_objects @
                           [\<lparr>i_company_id = company,
                             i_bill_id = ds_inum mr,
                             i_stock_id = ds_stock_id mr,
                             i_qty = ds_qty mr,
                             i_rt = rt,
                             i_txval = txval\<rparr>]
                   in market_return_loop float_txval dflt company d mrs
                        (sales_objects2, inventory_objects1))))"

text \<open>
  \<^verbatim>\<open>MarketReturnImport.run_atomic\<close> does not use \<^verbatim>\<open>args\<close>: it neither calls
  \<^verbatim>\<open>delete_before_insert\<close> nor filters the report by date.
\<close>

definition MarketReturnImport_body :: "constraints \<Rightarrow> float_expr \<Rightarrow> model_defaults \<Rightarrow> string \<Rightarrow>
    DateRangeArgs \<Rightarrow> db \<Rightarrow> run_result" where
  "MarketReturnImport_body valid float_txval dflt company args d =
     (case market_return_loop float_txval dflt company d (market_returns company d) ([], []) of
        (out, Inl e) \<Rightarrow> \<lparr>stdout = out, store = d, raised = Some e\<rparr>
      | (out, Inr (sales_objects, inventory_objects)) \<Rightarrow>
          (case bulk_create_Sales valid (map snd sales_objects) d of
             Inl e \<Rightarrow> \<lparr>stdout = out, store = d, raised = Some e\<rparr>
           | Inr d2 \<Rightarrow>
               (case bulk_create_Inventory valid inventory_objects d2 of
                  Inl e \<Rightarrow> \<lparr>stdout = out, store = d2, raised = Some e\<rparr>
                | Inr d3 \<Rightarrow> \<lparr>stdout = out, store = d3, raised = None\<rparr>)))"

definition MarketReturnImport_run_atomic :: "constraints \<Rightarrow> float_expr \<Rightarrow> model_defaults \<Rightarrow> string \<Rightarrow>
    DateRangeArgs \<Rightarrow> db \<Rightarrow> run_result" where
  "MarketReturnImport_run_atomic valid float_txval dflt company args d =
     transaction_atomic (MarketReturnImport_body valid float_txval dflt company args) d"

section \<open>Notions used to state the properties\<close>

text \<open>
  The invoice numbers that the register-side return rows of one (date, invoice number)
  key have after the matching loop, in the order in which the loop went through them:
  \<open>objs\<close> are the rows before the loop, \<open>objs'\<close> the rows after it.
\<close>

definition received :: "date \<times> string \<Rightarrow> SalesRegisterReport list \<Rightarrow> SalesRegisterReport list \<Rightarrow>
    string list" where
  "received k objs objs' =
     map (\<lambda>(obj, obj'). sr_inum obj')
       (filter (\<lambda>(obj, obj'). (sr_date obj, sr_inum obj) = k) (zip objs objs'))"

text \<open>The elements of a list in the order of their first occurrence, each once.\<close>

fun first_occurrences :: "'a list \<Rightarrow> 'a list" where
  "first_occurrences [] = []"
| "first_occurrences (x # xs) = x # filter (\<lambda>y. y \<noteq> x) (first_occurrences xs)"

text \<open>
  The queues of credit notes that the first loop of the return matching hands to the
  second one.
\<close>

definition date_original_inum_to_cn :: "string \<Rightarrow> DateRangeArgs \<Rightarrow> db \<Rightarrow> cn_queues" where
  "date_original_inum_to_cn company args d =
     snd (credit_note_loop (salesreturn_inventory_objs company args d) (\<lambda>_. []))"

text \<open>
  The discount line items of one row as the specification words them: for each of the
  five discount subtypes whose value is not zero, one item with the negated value; none
  for a subtype whose value is zero.
\<close>

definition discount_line_items :: "string \<Rightarrow> SalesRegisterReport \<Rightarrow> Discount list" where
  "discount_line_items company qs =
     (if sr_btpr qs = 0 then []
      else [\<lparr>d_company_id = company, d_bill_id = sr_inum qs, d_sub_type = ''btpr'',
             d_amt = - sr_btpr qs\<rparr>])
     @ (if sr_outpyt qs = 0 then []
        else [\<lparr>d_company_id = company, d_bill_id = sr_inum qs, d_sub_type = ''outpyt'',
               d_amt = - sr_outpyt qs\<rparr>])
     @ (if sr_ushop qs = 0 then []
        else [\<lparr>d_company_id = company, d_bill_id = sr_inum qs, d_sub_type = ''ushop'',
               d_amt = - sr_ushop qs\<rparr>])
     @ (if sr_pecom qs = 0 then []
        else [\<lparr>d_company_id = company, d_bill_id = sr_inum qs, d_sub_type = ''pecom'',
               d_amt = - sr_pecom qs\<rparr>])
     @ (if sr_other_discount qs = 0 then []
        else [\<lparr>d_company_id = company, d_bill_id = sr_inum qs, d_sub_type = ''other_discount'',
               d_amt = - sr_other_discount qs\<rparr>])"

text \<open>
  The store with the two reports of \<^verbatim>\<open>SalesImport\<close> cut down to the rows of one company
  in a date range.
\<close>

definition restrict_reports :: "string \<Rightarrow> DateRangeArgs \<Rightarrow> db \<Rightarrow> db" where
  "restrict_reports company args d =
     d\<lparr>SalesRegisterReport_tbl :=
         filter (\<lambda>r. sr_company r = company \<and> fromd args \<le> sr_date r \<and> sr_date r \<le> tod args)
           (SalesRegisterReport_tbl d),
       IkeaGSTR1Report_tbl :=
         filter (\<lambda>r. ig_company r = company \<and> fromd args \<le> ig_date r \<and> ig_date r \<le> tod args)
           (IkeaGSTR1Report_tbl d)\<rparr>"

section \<open>Example data\<close>

definition register_zero :: SalesRegisterReport where
  "register_zero =
     \<lparr>sr_company = [], sr_type = [], sr_inum = [], sr_date = 0, sr_party_id = [],
      sr_ctin = None, sr_amt = 0, sr_btpr = 0, sr_outpyt = 0, sr_ushop = 0, sr_pecom = 0,
      sr_other_discount = 0, sr_roundoff = 0, sr_tcs = 0, sr_tds = 0\<rparr>"

definition sales_zero :: Sales where
  "sales_zero =
     \<lparr>s_company_id = [], s_type = [], s_inum = [], s_date = 0, s_party_id = [],
      s_amt = 0, s_ctin = None, s_discount = 0, s_roundoff = 0, s_tcs = 0, s_tds = 0\<rparr>"

definition defaults_zero :: model_defaults where
  "defaults_zero = \<lparr>SalesRegisterReport_new = register_zero, Sales_new = sales_zero\<rparr>"

text \<open>No constraint at all; and the ledger's key: no two rows of one company and invoice number.\<close>

definition no_constraints :: constraints where
  "no_constraints d = True"

definition unique_ledger :: constraints where
  "unique_ledger d = distinct (map sales_pk (Sales_tbl d))"

definition january :: DateRangeArgs where
  "january = \<lparr>fromd = 1, tod = 31\<rparr>"

definition empty_db :: db where
  "empty_db =
     \<lparr>SalesRegisterReport_tbl = [], IkeaGSTR1Report_tbl = [], DmgShtReport_tbl = [],
      Stock_tbl = [], Sales_tbl = [], Discount_tbl = [], Inventory_tbl = []\<rparr>"

text \<open>A register row and an inventory row of company \<open>T\<close>.\<close>

definition register_row :: "string \<Rightarrow> string \<Rightarrow> date \<Rightarrow> decimal \<Rightarrow> SalesRegisterReport" where
  "register_row ty inum dt amt =
     register_zero\<lparr>sr_company := ''T'', sr_type := ty, sr_inum := inum, sr_date := dt,
       sr_party_id := ''P1'', sr_amt := amt\<rparr>"

definition inventory_return_row :: "string \<Rightarrow> string \<Rightarrow> date \<Rightarrow> decimal \<Rightarrow> IkeaGSTR1Report" where
  "inventory_return_row cn orig dt inv_amt =
     \<lparr>ig_company = ''T'', ig_type = ''salesreturn'', ig_inum = orig, ig_date = dt,
      ig_credit_note_no = cn, ig_original_invoice_no = orig, ig_ctin = None,
      ig_inv_amt = inv_amt, ig_stock_id = ''STK'', ig_qty = 1, ig_rt = 5, ig_txval = inv_amt\<rparr>"

text \<open>
  A ledger that holds one sale of 3 January, with its discount and inventory rows, and
  a register with one return of 5 January for which the inventory report has no credit
  note.
\<close>

definition old_sale :: Sales where
  "old_sale = sales_zero\<lparr>s_company_id := ''T'', s_type := ''sales'', s_inum := ''OLD'',
     s_date := 3, s_party_id := ''P1'', s_amt := - 50\<rparr>"

definition db_unmatched :: db where
  "db_unmatched =
     empty_db\<lparr>
       SalesRegisterReport_tbl := [register_row ''salesreturn'' ''S1'' 5 10],
       Sales_tbl := [old_sale],
       Discount_tbl := [\<lparr>d_company_id = ''T'', d_bill_id = ''OLD'', d_sub_type = ''btpr'', d_amt = - 1\<rparr>],
       Inventory_tbl := [\<lparr>i_company_id = ''T'', i_bill_id = ''OLD'', i_stock_id = ''STK'',
                          i_qty = 1, i_rt = 5, i_txval = 45\<rparr>]\<rparr>"

text \<open>
  A ledger that holds a sale of 3 January and a sale of 9 February (day 40) with invoice
  number \<open>S11\<close>, and a register with a sale of 4 January that has the same invoice
  number.
\<close>

definition february_sale :: Sales where
  "february_sale = sales_zero\<lparr>s_company_id := ''T'', s_type := ''sales'', s_inum := ''S11'',
     s_date := 40, s_party_id := ''P1'', s_amt := - 20\<rparr>"

definition db_key_clash :: db where
  "db_key_clash =
     empty_db\<lparr>
       SalesRegisterReport_tbl := [register_row ''sales'' ''S11'' 4 70],
       Sales_tbl := [old_sale, february_sale]\<rparr>"

text \<open>Damage and shortage reports of company \<open>T\<close>, and its stock master.\<close>

definition market_row :: "string \<Rightarrow> date \<Rightarrow> string \<Rightarrow> decimal \<Rightarrow> DmgShtReport" where
  "market_row inum dt stock amt =
     \<lparr>ds_company = ''T'', ds_return_from = ''market'', ds_type = ''damage'', ds_inum = inum,
      ds_date = dt, ds_party_id = ''P1'', ds_stock_id = stock, ds_qty = 1, ds_amt = amt\<rparr>"

definition stock_row :: "string \<Rightarrow> decimal \<Rightarrow> Stock" where
  "stock_row name rt = \<lparr>st_company = ''T'', st_name = name, st_hsn = ''H'', st_rt = rt\<rparr>"

text \<open>One market return of 5 January, of a stock taxed at 5 per cent.\<close>

definition db_market :: db where
  "db_market = empty_db\<lparr>DmgShtReport_tbl := [market_row ''M1'' 5 ''A'' 110],
     Stock_tbl := [stock_row ''A'' 5]\<rparr>"

text \<open>One market return of 19 February (day 50), outside January.\<close>

definition db_market_february :: db where
  "db_market_february = empty_db\<lparr>DmgShtReport_tbl := [market_row ''M2'' 50 ''A'' 110],
     Stock_tbl := [stock_row ''A'' 5]\<rparr>"



text \<open>A market return of a stock whose rate is \<open>- 50\<close>: the denominator is 0.\<close>

definition db_zero_division :: db where
  "db_zero_division = empty_db\<lparr>DmgShtReport_tbl := [market_row ''M6'' 5 ''N'' 100],
     Stock_tbl := [stock_row ''N'' (- 50)], Sales_tbl := [old_sale]\<rparr>"

text \<open>
  Three returns of invoice \<open>INV1\<close> of 5 January with register amounts 30, 10 and 20 (in
  table order), and three credit notes for it with inventory amounts 40, 5 and 15.
\<close>

definition db_fifo :: db where
  "db_fifo = empty_db\<lparr>
     SalesRegisterReport_tbl :=
       [register_row ''salesreturn'' ''INV1'' 5 30,
        register_row ''salesreturn'' ''INV1'' 5 10,
        register_row ''salesreturn'' ''INV1'' 5 20],
     IkeaGSTR1Report_tbl :=
       [inventory_return_row ''CN3'' ''INV1'' 5 40,
        inventory_return_row ''CN1'' ''INV1'' 5 5,
        inventory_return_row ''CN2'' ''INV1'' 5 15]\<rparr>"

text \<open>
  Two returns of invoice \<open>INV1\<close>; credit note \<open>CN1\<close> has two line items in the inventory
  report, credit note \<open>CN2\<close> one.
\<close>

definition db_credit_note_lines :: db where
  "db_credit_note_lines = empty_db\<lparr>
     SalesRegisterReport_tbl :=
       [register_row ''salesreturn'' ''INV1'' 5 10,
        register_row ''salesreturn'' ''INV1'' 5 20],
     IkeaGSTR1Report_tbl :=
       [inventory_return_row ''CN1'' ''INV1'' 5 5,
        (inventory_return_row ''CN1'' ''INV1'' 5 5)\<lparr>ig_stock_id := ''STK2''\<rparr>,
        inventory_return_row ''CN2'' ''INV1'' 5 15]\<rparr>"

text \<open>
  A sale with two discounts, a roundoff, TCS and TDS; a sale without any discount; a
  return with a roundoff and one discount, and its credit note.
\<close>

definition sale_with_discounts :: SalesRegisterReport where
  "sale_with_discounts =
     (register_row ''sales'' ''S10'' 4 100)\<lparr>sr_btpr := 3, sr_other_discount := 2,
        sr_roundoff := 2 / 5, sr_tcs := 1, sr_tds := 2\<rparr>"

definition sale_plain :: SalesRegisterReport where
  "sale_plain = register_row ''sales'' ''S11'' 4 70"

definition return_with_roundoff :: SalesRegisterReport where
  "return_with_roundoff =
     (register_row ''salesreturn'' ''S10'' 6 50)\<lparr>sr_pecom := 1, sr_roundoff := 1 / 4\<rparr>"

definition db_signs :: db where
  "db_signs = empty_db\<lparr>
     SalesRegisterReport_tbl := [sale_with_discounts, sale_plain, return_with_roundoff],
     IkeaGSTR1Report_tbl := [inventory_return_row ''CN9'' ''S10'' 6 50]\<rparr>"

text \<open>
  Claim-service rows of the inventory report: two for invoice \<open>I1\<close> with taxable values
  100 and 200 at 5 per cent, one for invoice \<open>I2\<close>.
\<close>

definition claimservice_row :: "string \<Rightarrow> date \<Rightarrow> decimal \<Rightarrow> decimal \<Rightarrow> IkeaGSTR1Report" where
  "claimservice_row inum dt txval rt =
     \<lparr>ig_company = ''T'', ig_type = ''claimservice'', ig_inum = inum, ig_date = dt,
      ig_credit_note_no = [], ig_original_invoice_no = [], ig_ctin = Some ''GSTIN1'',
      ig_inv_amt = 0, ig_stock_id = ''SRV'', ig_qty = 1, ig_rt = rt, ig_txval = txval\<rparr>"

definition db_claimservice :: db where
  "db_claimservice = empty_db\<lparr>
     IkeaGSTR1Report_tbl :=
       [claimservice_row ''I1'' 8 100 5, claimservice_row ''I2'' 9 50 9,
        claimservice_row ''I1'' 8 200 5]\<rparr>"

section \<open>Properties\<close>

subsection \<open>Deleting\<close>

lemma delete_pks_Nil: "delete_pks [] d = d"
  by (simp add: delete_pks_def)

lemma delete_pks_delete_pks: "delete_pks b (delete_pks a d) = delete_pks (a @ b) d"
  by (auto simp add: delete_pks_def intro!: filter_cong)

lemma batch_delete_loop_eq:
  "0 < batch_size \<Longrightarrow> batch_delete_loop pks batch_size d = delete_pks pks d"
proof (induction pks batch_size d rule: batch_delete_loop.induct)
  case (1 pks batch_size d)
  show ?case
  proof (cases "pks = []")
    case True
    then show ?thesis by (subst batch_delete_loop.simps) (simp add: delete_pks_Nil)
  next
    case False
    with 1 have "batch_delete_loop pks batch_size d
        = delete_pks (drop batch_size pks) (delete_pks (take batch_size pks) d)"
      by (subst batch_delete_loop.simps) simp
    then show ?thesis by (simp add: delete_pks_delete_pks)
  qed
qed

subsection \<open>The two loops of the return matching\<close>

lemma credit_note_loop_fst:
  "fst (credit_note_loop objs q) =
     map (\<lambda>obj. obj\<lparr>ig_inum := ig_credit_note_no obj, ig_txval := - ig_txval obj\<rparr>) objs"
  by (induction objs arbitrary: q) (simp_all add: Let_def split_beta)

lemma credit_note_loop_distinct:
  "(\<And>k. distinct (q k)) \<Longrightarrow> distinct (snd (credit_note_loop objs q) k)"
proof (induction objs arbitrary: q)
  case Nil
  then show ?case by simp
next
  case (Cons obj objs)
  have "distinct (snd (credit_note_loop objs q') k)"
    if "q' = q \<or> (\<exists>c k'. c \<notin> set (q k') \<and> q' = q(k' := q k' @ [c]))" for q'
  proof (rule Cons.IH)
    fix k0 show "distinct (q' k0)" using that Cons.prems [of k0] Cons.prems by (cases k0) auto
  qed
  then show ?case
    by (simp add: Let_def split_beta) blast
qed

lemma credit_note_loop_queue:
  "snd (credit_note_loop objs q) k =
     q k @ filter (\<lambda>c. c \<notin> set (q k))
            (first_occurrences (map ig_credit_note_no
               (filter (\<lambda>obj. (ig_date obj, ig_original_invoice_no obj) = k) objs)))"
proof (induction objs arbitrary: q)
  case Nil
  then show ?case by simp
next
  case (Cons obj objs)
  let ?k = "(ig_date obj, ig_original_invoice_no obj)"
  let ?c = "ig_credit_note_no obj"
  let ?rest = "first_occurrences (map ig_credit_note_no
               (filter (\<lambda>obj. (ig_date obj, ig_original_invoice_no obj) = k) objs))"
  show ?case
  proof (cases "?k = k")
    case False
    then show ?thesis by (simp add: Let_def split_beta Cons.IH)
  next
    case True
    show ?thesis
    proof (cases "?c \<in> set (q k)")
      case True
      have "filter (\<lambda>c. c \<notin> set (q k)) (filter (\<lambda>y. y \<noteq> ?c) ?rest) = filter (\<lambda>c. c \<notin> set (q k)) ?rest"
        using True by (auto intro!: filter_cong)
      with True \<open>?k = k\<close> show ?thesis by (simp add: Let_def split_beta Cons.IH)
    next
      case False
      have "filter (\<lambda>c. c \<notin> set (q k) \<and> c \<noteq> ?c) ?rest = filter (\<lambda>c. c \<notin> set (q k)) (filter (\<lambda>y. y \<noteq> ?c) ?rest)"
        by (auto intro!: filter_cong)
      with False \<open>?k = k\<close> show ?thesis by (simp add: Let_def split_beta Cons.IH)
    qed
  qed
qed

lemma match_loop_received:
  "match_loop objs q = (out, Inr objs') \<Longrightarrow>
   received k objs objs' = take (length (filter (\<lambda>obj. (sr_date obj, sr_inum obj) = k) objs)) (q k)"
proof (induction objs arbitrary: q out objs')
  case Nil
  then show ?case by (simp add: received_def)
next
  case (Cons obj objs)
  let ?k = "(sr_date obj, sr_inum obj)"
  from Cons.prems obtain inum rest out' res where
    q: "q ?k = inum # rest" and
    rec: "match_loop objs (q(?k := rest)) = (out', Inr res)" and
    objs': "objs' = obj\<lparr>sr_roundoff := - sr_roundoff obj, sr_inum := inum\<rparr> # res"
    by (auto simp add: Let_def split: list.splits prod.splits sum.splits)
  from Cons.IH [OF rec] have IH:
    "received k objs res = take (length (filter (\<lambda>obj. (sr_date obj, sr_inum obj) = k) objs)) ((q(?k := rest)) k)" .
  show ?case
  proof (cases "?k = k")
    case True
    with IH q objs' show ?thesis by (simp add: received_def)
  next
    case False
    with IH q objs' show ?thesis by (simp add: received_def)
  qed
qed

lemma match_loop_fields:
  "match_loop objs q = (out, Inr objs') \<Longrightarrow>
   list_all2 (\<lambda>obj obj'. \<exists>inum. obj' = obj\<lparr>sr_roundoff := - sr_roundoff obj, sr_inum := inum\<rparr>) objs objs'"
proof (induction objs arbitrary: q out objs')
  case Nil
  then show ?case by simp
next
  case (Cons obj objs)
  let ?k = "(sr_date obj, sr_inum obj)"
  from Cons.prems obtain inum rest out' res where
    rec: "match_loop objs (q(?k := rest)) = (out', Inr res)" and
    objs': "objs' = obj\<lparr>sr_roundoff := - sr_roundoff obj, sr_inum := inum\<rparr> # res"
    by (auto simp add: Let_def split: list.splits prod.splits sum.splits)
  from Cons.IH [OF rec] objs' show ?case by auto
qed

subsection \<open>The delete and the reports\<close>

lemma SalesImport_delete_before_insert_eq:
  "SalesImport_delete_before_insert company args d =
     Inr (delete_pks (map sales_pk
       (filter (\<lambda>s. s_company_id s = company \<and> fromd args \<le> s_date s \<and> s_date s \<le> tod args
            \<and> s_type s \<in> set [''sales'', ''salesreturn'', ''claimservice'']) (Sales_tbl d))) d)"
  by (simp add: SalesImport_delete_before_insert_def batch_delete_def batch_delete_loop_eq)

lemma delete_pks_reports:
  "SalesRegisterReport_tbl (delete_pks pks d) = SalesRegisterReport_tbl d"
  "IkeaGSTR1Report_tbl (delete_pks pks d) = IkeaGSTR1Report_tbl d"
  "DmgShtReport_tbl (delete_pks pks d) = DmgShtReport_tbl d"
  "Stock_tbl (delete_pks pks d) = Stock_tbl d"
  by (simp_all add: delete_pks_def)

lemma objs_delete_pks:
  "sales_objs company args (delete_pks pks d) = sales_objs company args d"
  "salesreturn_objs company args (delete_pks pks d) = salesreturn_objs company args d"
  "sales_inventory_objs company args (delete_pks pks d) = sales_inventory_objs company args d"
  "salesreturn_inventory_objs company args (delete_pks pks d) = salesreturn_inventory_objs company args d"
  "claimservice_inventory_objs company args (delete_pks pks d) = claimservice_inventory_objs company args d"
  by (simp_all add: salesreturn_inventory_objs_def
      salesreturn_objs_def claimservice_inventory_objs_def sales_objs_def sales_inventory_objs_def
      sales_qs_def inventory_qs_def delete_pks_reports)

lemma SalesImport_transform_delete_pks:
  "SalesImport_transform dflt company args (delete_pks pks d) = SalesImport_transform dflt company args d"
  unfolding SalesImport_transform_def objs_delete_pks by (rule refl)

lemma match_loop_succeeds_iff:
  "(\<exists>out objs'. match_loop objs q = (out, Inr objs')) \<longleftrightarrow>
   (\<forall>k. length (filter (\<lambda>obj. (sr_date obj, sr_inum obj) = k) objs) \<le> length (q k))"
proof (induction objs arbitrary: q)
  case Nil
  then show ?case by simp
next
  case (Cons x objs)
  let ?k = "(sr_date x, sr_inum x)"
  show ?case
  proof (cases "q ?k")
    case Nil
    then have "\<not> (\<exists>out objs'. match_loop (x # objs) q = (out, Inr objs'))"
      by (simp add: Let_def)
    moreover from Nil have "\<not> length (filter (\<lambda>obj. (sr_date obj, sr_inum obj) = ?k) (x # objs)) \<le> length (q ?k)"
      by simp
    ultimately show ?thesis by blast
  next
    case (Cons inum rest)
    have "(\<exists>out objs'. match_loop (x # objs) q = (out, Inr objs')) \<longleftrightarrow>
          (\<exists>out objs'. match_loop objs (q(?k := rest)) = (out, Inr objs'))"
      using Cons by (auto simp add: Let_def split: prod.splits sum.splits)
    also have "\<dots> \<longleftrightarrow> (\<forall>k. length (filter (\<lambda>obj. (sr_date obj, sr_inum obj) = k) objs)
                            \<le> length ((q(?k := rest)) k))"
      by (rule Cons.IH)
    also have "\<dots> \<longleftrightarrow> (\<forall>k. length (filter (\<lambda>obj. (sr_date obj, sr_inum obj) = k) (x # objs))
                            \<le> length (q k))"
    proof (intro iff_allI)
      fix k
      show "length (filter (\<lambda>obj. (sr_date obj, sr_inum obj) = k) objs) \<le> length ((q(?k := rest)) k)
        \<longleftrightarrow> length (filter (\<lambda>obj. (sr_date obj, sr_inum obj) = k) (x # objs)) \<le> length (q k)"
        using Cons by (cases "?k = k") auto
    qed
    finally show ?thesis .
  qed
qed

lemma match_loop_error:
  "match_loop objs q = (out, Inl e) \<Longrightarrow>
   e = IndexError \<and> (\<exists>obj \<in> set objs. out = [NoMatchingCreditNote (sr_inum obj) (sr_date obj)])"
proof (induction objs arbitrary: q out)
  case Nil
  then show ?case by simp
next
  case (Cons x objs)
  let ?k = "(sr_date x, sr_inum x)"
  show ?case
  proof (cases "q ?k")
    case Nil
    with Cons.prems show ?thesis by (simp add: Let_def)
  next
    case (Cons inum rest)
    with Cons.prems have "match_loop objs (q(?k := rest)) = (out, Inl e)"
      by (auto simp add: Let_def split: prod.splits sum.splits)
    from Cons.IH [OF this] show ?thesis by auto
  qed
qed

lemma match_loop_stdout_Inr: "match_loop objs q = (out, Inr objs') \<Longrightarrow> out = []"
proof (induction objs arbitrary: q out objs')
  case Nil
  then show ?case by simp
next
  case (Cons x objs)
  let ?k = "(sr_date x, sr_inum x)"
  from Cons.prems obtain inum rest out' res where
    "q ?k = inum # rest" and
    rec: "match_loop objs (q(?k := rest)) = (out', Inr res)" and "out = out'"
    by (auto simp add: Let_def split: list.splits prod.splits sum.splits)
  with Cons.IH [OF rec] show ?case by simp
qed

subsection \<open>The shape of a run\<close>

lemma SalesImport_transform_Inl:
  "match_loop (salesreturn_objs company args d) (date_original_inum_to_cn company args d) = (out, Inl e)
   \<Longrightarrow> SalesImport_transform dflt company args d = (out, Inl e)"
  by (simp add: SalesImport_transform_def date_original_inum_to_cn_def split_beta)

lemma SalesImport_transform_Inr:
  "match_loop (salesreturn_objs company args d) (date_original_inum_to_cn company args d) = (out, Inr sr_objs)
   \<Longrightarrow> SalesImport_transform dflt company args d =
     (out, Inr
       (map (model_sales_obj company)
          (sales_objs company args d @ sr_objs
             @ claimservice_objs dflt company (claimservice_inventory_objs company args d)),
        concat (map (model_discount_objs_of company)
          (exclude_zero_discounts (sales_objs company args d) @ sr_objs
             @ claimservice_objs dflt company (claimservice_inventory_objs company args d))),
        map (model_inventory_obj company)
          (sales_inventory_objs company args d
             @ fst (credit_note_loop (salesreturn_inventory_objs company args d) (\<lambda>_. []))
             @ claimservice_inventory_objs company args d)))"
  by (simp add: SalesImport_transform_def date_original_inum_to_cn_def split_beta Let_def)

lemma SalesImport_run_atomic_Inl:
  "SalesImport_transform dflt company args d = (out, Inl e) \<Longrightarrow>
   SalesImport_run_atomic valid dflt company args d = \<lparr>stdout = out, store = d, raised = Some e\<rparr>"
  by (simp add: SalesImport_run_atomic_def transaction_atomic_def SalesImport_body_def
      SalesImport_delete_before_insert_eq SalesImport_transform_delete_pks)

lemma SalesImport_run_atomic_Inr:
  "SalesImport_transform dflt company args d = (out, Inr (ms, md, mi)) \<Longrightarrow>
   SalesImport_delete_before_insert company args d = Inr d1 \<Longrightarrow>
   SalesImport_run_atomic valid dflt company args d =
     (if valid (d1\<lparr>Sales_tbl := Sales_tbl d1 @ ms\<rparr>)
        \<and> valid (d1\<lparr>Sales_tbl := Sales_tbl d1 @ ms, Discount_tbl := Discount_tbl d1 @ md\<rparr>)
        \<and> valid (d1\<lparr>Sales_tbl := Sales_tbl d1 @ ms, Discount_tbl := Discount_tbl d1 @ md,
                     Inventory_tbl := Inventory_tbl d1 @ mi\<rparr>)
      then \<lparr>stdout = out,
            store = d1\<lparr>Sales_tbl := Sales_tbl d1 @ ms, Discount_tbl := Discount_tbl d1 @ md,
                       Inventory_tbl := Inventory_tbl d1 @ mi\<rparr>,
            raised = None\<rparr>
      else \<lparr>stdout = out, store = d, raised = Some IntegrityError\<rparr>)"
proof -
  assume t: "SalesImport_transform dflt company args d = (out, Inr (ms, md, mi))"
    and del: "SalesImport_delete_before_insert company args d = Inr d1"
  from del obtain pks where d1: "d1 = delete_pks pks d"
    by (auto simp add: SalesImport_delete_before_insert_eq)
  have t1: "SalesImport_transform dflt company args d1 = (out, Inr (ms, md, mi))"
    unfolding d1 SalesImport_transform_delete_pks by (rule t)
  show ?thesis
    by (simp add: SalesImport_run_atomic_def transaction_atomic_def SalesImport_body_def del t1
        bulk_create_Sales_def bulk_create_Discount_def bulk_create_Inventory_def Let_def)
qed

subsection \<open>The queues\<close>

lemma sorted_salesreturn_objs: "sorted (map sr_amt (salesreturn_objs company args d))"
  by (simp add: salesreturn_objs_def)

lemma sorted_salesreturn_inventory_objs:
  "sorted (map ig_inv_amt (salesreturn_inventory_objs company args d))"
  by (simp add: salesreturn_inventory_objs_def)

lemma date_original_inum_to_cn_eq:
  "date_original_inum_to_cn company args d k =
     first_occurrences (map ig_credit_note_no
       (filter (\<lambda>inv. (ig_date inv, ig_original_invoice_no inv) = k)
          (salesreturn_inventory_objs company args d)))"
  by (simp add: date_original_inum_to_cn_def credit_note_loop_queue)

lemma date_original_inum_to_cn_distinct: "distinct (date_original_inum_to_cn company args d k)"
  unfolding date_original_inum_to_cn_def by (rule credit_note_loop_distinct) simp

subsection \<open>Ledger entries and discounts\<close>

lemma model_discount_objs_of_eq:
  "model_discount_objs_of company qs = discount_line_items company qs"
  by (simp add: model_discount_objs_of_def discount_line_items_def discount_fields_def)

lemma model_discount_objs_of_zero:
  "sr_btpr qs = 0 \<and> sr_outpyt qs = 0 \<and> sr_ushop qs = 0 \<and> sr_pecom qs = 0 \<and> sr_other_discount qs = 0
   \<Longrightarrow> model_discount_objs_of company qs = []"
  by (simp add: model_discount_objs_of_def discount_fields_def)

lemma concat_exclude_zero_discounts:
  "concat (map (model_discount_objs_of company) (exclude_zero_discounts objs))
     = concat (map (model_discount_objs_of company) objs)"
  by (induction objs) (simp_all add: exclude_zero_discounts_def model_discount_objs_of_zero)

lemma match_loop_length: "match_loop objs q = (out, Inr objs') \<Longrightarrow> length objs' = length objs"
  by (drule match_loop_fields) (rule list_all2_lengthD [symmetric])

lemma SalesImport_run_atomic_ok:
  assumes "raised (SalesImport_run_atomic valid dflt company args d) = None"
  obtains sr_objs ms md mi d1 where
    "match_loop (salesreturn_objs company args d) (date_original_inum_to_cn company args d) = ([], Inr sr_objs)"
    and "SalesImport_transform dflt company args d = ([], Inr (ms, md, mi))"
    and "SalesImport_delete_before_insert company args d = Inr d1"
    and "store (SalesImport_run_atomic valid dflt company args d) =
           d1\<lparr>Sales_tbl := Sales_tbl d1 @ ms, Discount_tbl := Discount_tbl d1 @ md,
              Inventory_tbl := Inventory_tbl d1 @ mi\<rparr>"
proof -
  let ?m = "match_loop (salesreturn_objs company args d) (date_original_inum_to_cn company args d)"
  obtain out r where m: "?m = (out, r)" by (cases ?m)
  show thesis
  proof (cases r)
    case (Inl e)
    with m have "?m = (out, Inl e)" by simp
    from SalesImport_run_atomic_Inl [OF SalesImport_transform_Inl [OF this], of valid dflt] assms
    show ?thesis by simp
  next
    case (Inr sr_objs)
    with m match_loop_stdout_Inr [of _ _ out sr_objs]
    have m': "?m = ([], Inr sr_objs)" by simp
    from SalesImport_transform_Inr [OF m', of dflt] obtain ms md mi where
      t: "SalesImport_transform dflt company args d = ([], Inr (ms, md, mi))" by blast
    obtain d1 where d1: "SalesImport_delete_before_insert company args d = Inr d1"
      by (simp add: SalesImport_delete_before_insert_eq)
    from assms have "store (SalesImport_run_atomic valid dflt company args d) =
           d1\<lparr>Sales_tbl := Sales_tbl d1 @ ms, Discount_tbl := Discount_tbl d1 @ md,
              Inventory_tbl := Inventory_tbl d1 @ mi\<rparr>"
      unfolding SalesImport_run_atomic_Inr [OF t d1, of valid] by (simp split: if_splits)
    with m' t d1 that show ?thesis by blast
  qed
qed

lemma salesreturn_objs_type: "obj \<in> set (salesreturn_objs company args d) \<Longrightarrow> sr_type obj = ''salesreturn''"
  by (simp add: salesreturn_objs_def)

lemma sales_objs_type: "obj \<in> set (sales_objs company args d) \<Longrightarrow> sr_type obj = ''sales''"
  by (simp add: sales_objs_def)

subsection \<open>Claim service\<close>

lemma claimservice_loop_fst:
  "fst (claimservice_loop objs (t, x)) i = t i + sum_list (map ig_txval (filter (\<lambda>r. ig_inum r = i) objs))"
  by (induction objs arbitrary: t x) simp_all

lemma claimservice_loop_snd:
  "snd (claimservice_loop objs (t, x)) i =
     x i + sum_list (map (\<lambda>r. 2 * ig_txval r * ig_rt r / 100) (filter (\<lambda>r. ig_inum r = i) objs))"
  by (induction objs arbitrary: t x) simp_all

lemma distinct_inum_count:
  "length (filter (\<lambda>r. ig_inum r = i) (distinct_inum rs)) = (if i \<in> ig_inum ` set rs then 1 else 0)"
  by (induction rs rule: distinct_inum.induct) auto

lemma claimservice_objs_filter:
  "filter (\<lambda>obj. sr_inum obj = i) (claimservice_objs dflt company inv_objs)
     = map (claimservice_obj dflt company (claimservice_loop inv_objs (\<lambda>_. 0, \<lambda>_. 0)))
         (filter (\<lambda>r. ig_inum r = i) (distinct_inum inv_objs))"
  by (simp add: claimservice_objs_def Let_def filter_map comp_def claimservice_obj_def)

lemma claimservice_objs_type:
  "obj \<in> set (claimservice_objs dflt company inv_objs) \<Longrightarrow> sr_type obj = ''claimservice''"
  by (auto simp add: claimservice_objs_def Let_def claimservice_obj_def)

lemma match_loop_types:
  "match_loop objs q = (out, Inr objs') \<Longrightarrow> map sr_type objs' = map sr_type objs"
proof (drule match_loop_fields, induction rule: list_all2_induct)
  case Nil
  then show ?case by simp
next
  case (Cons x xs y ys)
  then show ?case by auto
qed

subsection \<open>Market returns\<close>

lemma market_return_loop_inventory:
  "market_return_loop fl dflt company d mrs (so, io) = (out, Inr (so', io')) \<Longrightarrow>
   \<exists>new. io' = io @ new \<and>
     list_all2 (\<lambda>mr inv. \<exists>rt. stock_rt_subquery company d (ds_stock_id mr) = Some rt
                  \<and> (if rt = 0 then i_txval inv = 0 else fl (ds_amt mr) rt = Inr (i_txval inv))
                  \<and> i_bill_id inv = ds_inum mr \<and> i_stock_id inv = ds_stock_id mr
                  \<and> i_qty inv = ds_qty mr \<and> i_rt inv = rt)
       (filter (\<lambda>mr. stock_rt_subquery company d (ds_stock_id mr) \<noteq> None) mrs) new"
proof (induction mrs arbitrary: so io out so' io')
  case Nil
  then show ?case by simp
next
  case (Cons mr mrs)
  show ?case
  proof (cases "stock_rt_subquery company d (ds_stock_id mr)")
    case None
    with Cons.prems obtain out' where
      "market_return_loop fl dflt company d mrs (so, io) = (out', Inr (so', io'))"
      by (auto simp add: Let_def split: prod.splits)
    from Cons.IH [OF this] None show ?thesis by simp
  next
    case (Some rt)
    with Cons.prems obtain txval so1 where
      tx: "txval_of fl (ds_amt mr) rt = Inr txval" and
      rec: "market_return_loop fl dflt company d mrs
              (so1, io @ [\<lparr>i_company_id = company, i_bill_id = ds_inum mr,
                           i_stock_id = ds_stock_id mr, i_qty = ds_qty mr, i_rt = rt,
                           i_txval = txval\<rparr>]) = (out, Inr (so', io'))"
      by (auto simp add: Let_def split: sum.splits)
    from Cons.IH [OF rec] obtain new where
      new: "io' = (io @ [\<lparr>i_company_id = company, i_bill_id = ds_inum mr,
                           i_stock_id = ds_stock_id mr, i_qty = ds_qty mr, i_rt = rt,
                           i_txval = txval\<rparr>]) @ new" and
      all: "list_all2 (\<lambda>mr inv. \<exists>rt. stock_rt_subquery company d (ds_stock_id mr) = Some rt
                  \<and> (if rt = 0 then i_txval inv = 0 else fl (ds_amt mr) rt = Inr (i_txval inv))
                  \<and> i_bill_id inv = ds_inum mr \<and> i_stock_id inv = ds_stock_id mr
                  \<and> i_qty inv = ds_qty mr \<and> i_rt inv = rt)
       (filter (\<lambda>mr. stock_rt_subquery company d (ds_stock_id mr) \<noteq> None) mrs) new"
      by blast
    from tx have "if rt = 0 then txval = 0 else fl (ds_amt mr) rt = Inr txval"
      by (auto simp add: txval_of_def split: if_splits)
    with new all Some show ?thesis by simp
  qed
qed

subsection \<open>Runs of MarketReturnImport, and the range of SalesImport\<close>

lemma objs_restrict_reports:
  "sales_objs company args (restrict_reports company args d) = sales_objs company args d"
  "salesreturn_objs company args (restrict_reports company args d) = salesreturn_objs company args d"
  "sales_inventory_objs company args (restrict_reports company args d) = sales_inventory_objs company args d"
  "salesreturn_inventory_objs company args (restrict_reports company args d)
     = salesreturn_inventory_objs company args d"
  "claimservice_inventory_objs company args (restrict_reports company args d)
     = claimservice_inventory_objs company args d"
  by (simp_all add: salesreturn_inventory_objs_def
      salesreturn_objs_def claimservice_inventory_objs_def sales_objs_def sales_inventory_objs_def
      sales_qs_def inventory_qs_def restrict_reports_def)

lemma SalesImport_transform_in_range:
  "SalesImport_transform dflt company args (restrict_reports company args d)
     = SalesImport_transform dflt company args d"
  unfolding SalesImport_transform_def objs_restrict_reports by (rule refl)

lemma market_return_loop_succeeds_iff:
  "(\<exists>out so' io'. market_return_loop fl dflt company d mrs (so, io) = (out, Inr (so', io'))) \<longleftrightarrow>
   (\<forall>mr \<in> set mrs. \<forall>rt. stock_rt_subquery company d (ds_stock_id mr) = Some rt
       \<longrightarrow> (\<exists>t. txval_of fl (ds_amt mr) rt = Inr t))"
proof (induction mrs arbitrary: so io)
  case Nil
  then show ?case by simp
next
  case (Cons mr mrs)
  show ?case
  proof (cases "stock_rt_subquery company d (ds_stock_id mr)")
    case None
    then have "(\<exists>out so' io'. market_return_loop fl dflt company d (mr # mrs) (so, io) = (out, Inr (so', io')))
      \<longleftrightarrow> (\<exists>out so' io'. market_return_loop fl dflt company d mrs (so, io) = (out, Inr (so', io')))"
      by (auto simp add: Let_def split: prod.splits)
    with None Cons.IH [of so io] show ?thesis by simp
  next
    case (Some rt)
    show ?thesis
    proof (cases "txval_of fl (ds_amt mr) rt")
      case (Inl e)
      with Some show ?thesis by (auto simp add: Let_def)
    next
      case (Inr t)
      with Some obtain so1 io1 where
        "market_return_loop fl dflt company d (mr # mrs) (so, io)
           = market_return_loop fl dflt company d mrs (so1, io1)"
        by (simp add: Let_def)
      with Some Inr Cons.IH [of so1 io1] show ?thesis by simp
    qed
  qed
qed

lemma MarketReturnImport_run_atomic_Inl:
  "market_return_loop fl dflt company d (market_returns company d) ([], []) = (out, Inl e) \<Longrightarrow>
   MarketReturnImport_run_atomic valid fl dflt company args d = \<lparr>stdout = out, store = d, raised = Some e\<rparr>"
  by (simp add: MarketReturnImport_run_atomic_def transaction_atomic_def MarketReturnImport_body_def)

lemma MarketReturnImport_run_atomic_Inr:
  "market_return_loop fl dflt company d (market_returns company d) ([], []) = (out, Inr (so, io)) \<Longrightarrow>
   MarketReturnImport_run_atomic valid fl dflt company args d =
     (if valid (d\<lparr>Sales_tbl := Sales_tbl d @ map snd so\<rparr>)
        \<and> valid (d\<lparr>Sales_tbl := Sales_tbl d @ map snd so, Inventory_tbl := Inventory_tbl d @ io\<rparr>)
      then \<lparr>stdout = out,
            store = d\<lparr>Sales_tbl := Sales_tbl d @ map snd so, Inventory_tbl := Inventory_tbl d @ io\<rparr>,
            raised = None\<rparr>
      else \<lparr>stdout = out, store = d, raised = Some IntegrityError\<rparr>)"
  by (simp add: MarketReturnImport_run_atomic_def transaction_atomic_def MarketReturnImport_body_def
      bulk_create_Sales_def bulk_create_Inventory_def Let_def)

lemma MarketReturnImport_run_atomic_ok:
  assumes "raised (MarketReturnImport_run_atomic valid fl dflt company args d) = None"
  obtains out so io where
    "market_return_loop fl dflt company d (market_returns company d) ([], []) = (out, Inr (so, io))"
    and "store (MarketReturnImport_run_atomic valid fl dflt company args d) =
           d\<lparr>Sales_tbl := Sales_tbl d @ map snd so, Inventory_tbl := Inventory_tbl d @ io\<rparr>"
proof -
  let ?l = "market_return_loop fl dflt company d (market_returns company d) ([], [])"
  obtain out r where l: "?l = (out, r)" by (cases ?l)
  show thesis
  proof (cases r)
    case (Inl e)
    with l assms MarketReturnImport_run_atomic_Inl [of fl dflt company d out e valid args]
    show ?thesis by simp
  next
    case (Inr p)
    obtain so io where p: "p = (so, io)" by (cases p)
    from l Inr p have l': "?l = (out, Inr (so, io))" by simp
    from assms have "store (MarketReturnImport_run_atomic valid fl dflt company args d) =
           d\<lparr>Sales_tbl := Sales_tbl d @ map snd so, Inventory_tbl := Inventory_tbl d @ io\<rparr>"
      unfolding MarketReturnImport_run_atomic_Inr [OF l', of valid args] by (simp split: if_splits)
    with l' that show ?thesis by blast
  qed
qed

section \<open>Claims\<close>

text \<open>
  Claim C1. The specification says that a register-side return row whose queue of
  credit notes is empty gets a diagnostic and is still emitted, with its invoice number
  unresolved, and that the transform does not abort. The code prints the diagnostic and
  then calls \<^verbatim>\<open>inums.pop(0)\<close> on the empty list: whenever some (date, invoice number) key
  has more register-side return rows than queued credit notes, the run raises
  \<^verbatim>\<open>IndexError\<close> after one diagnostic line, and the store is what it was before the run,
  so no ledger entry is emitted at all.
\<close>

theorem salesreturn_without_credit_note_raises:
  assumes "length (date_original_inum_to_cn company args d k)
             < length (filter (\<lambda>obj. (sr_date obj, sr_inum obj) = k) (salesreturn_objs company args d))"
  shows "raised (SalesImport_run_atomic valid dflt company args d) = Some IndexError
       \<and> store (SalesImport_run_atomic valid dflt company args d) = d
       \<and> (\<exists>obj \<in> set (salesreturn_objs company args d).
            stdout (SalesImport_run_atomic valid dflt company args d)
              = [NoMatchingCreditNote (sr_inum obj) (sr_date obj)])"
proof -
  let ?m = "match_loop (salesreturn_objs company args d) (date_original_inum_to_cn company args d)"
  from assms have "\<not> (\<forall>k. length (filter (\<lambda>obj. (sr_date obj, sr_inum obj) = k)
      (salesreturn_objs company args d)) \<le> length (date_original_inum_to_cn company args d k))"
    using not_le by blast
  then have "\<not> (\<exists>out objs'. ?m = (out, Inr objs'))"
    unfolding match_loop_succeeds_iff .
  then obtain out e where m: "?m = (out, Inl e)"
    by (cases ?m) (metis sum.exhaust_sel surj_pair old.sum.exhaust)
  from match_loop_error [OF m] have e: "e = IndexError"
    and out: "\<exists>obj \<in> set (salesreturn_objs company args d). out = [NoMatchingCreditNote (sr_inum obj) (sr_date obj)]"
    by simp_all
  from SalesImport_run_atomic_Inl [OF SalesImport_transform_Inl [OF m]] e out
  show ?thesis by simp
qed

theorem salesreturn_without_credit_note_raises_witness:
  "length (date_original_inum_to_cn ''T'' january db_unmatched (5, ''S1''))
     < length (filter (\<lambda>obj. (sr_date obj, sr_inum obj) = (5, ''S1''))
         (salesreturn_objs ''T'' january db_unmatched))
   \<and> SalesImport_run_atomic no_constraints defaults_zero ''T'' january db_unmatched =
     \<lparr>stdout = [NoMatchingCreditNote ''S1'' 5], store = db_unmatched, raised = Some IndexError\<rparr>
   \<and> Sales_tbl db_unmatched = [old_sale]"
proof -
  have h: "length (date_original_inum_to_cn ''T'' january db_unmatched (5, ''S1''))
     < length (filter (\<lambda>obj. (sr_date obj, sr_inum obj) = (5, ''S1''))
         (salesreturn_objs ''T'' january db_unmatched))"
    by code_simp
  have r: "SalesImport_run_atomic no_constraints defaults_zero ''T'' january db_unmatched =
     \<lparr>stdout = [NoMatchingCreditNote ''S1'' 5], store = db_unmatched, raised = Some IndexError\<rparr>"
    by code_simp
  have s: "Sales_tbl db_unmatched = [old_sale]"
    by (simp add: db_unmatched_def)
  from salesreturn_without_credit_note_raises [OF h, of no_constraints defaults_zero] h r s show ?thesis by simp
qed

text \<open>
  Claim C8. Both date-ranged importers run inside \<^verbatim>\<open>transaction.atomic\<close>: when a run
  raises, in whatever phase, the store (ledger, discount and inventory rows, the rows
  removed by the delete-before-insert included) is exactly the store before the run, and
  the exception that the body raised is the one the caller gets. In the witness a run of
  \<^verbatim>\<open>SalesImport\<close> raises in the transform (the delete has emptied the ledger by then) and
  another one in the insert of the ledger entries (the delete has removed the sale of
  3 January by then), and a run of \<^verbatim>\<open>MarketReturnImport\<close> raises in its loop: each leaves
  the store it started from.
\<close>

theorem failure_rolls_back:
  "(raised (SalesImport_run_atomic valid dflt company args d) \<noteq> None \<longrightarrow>
      store (SalesImport_run_atomic valid dflt company args d) = d)
   \<and> (raised (MarketReturnImport_run_atomic valid fl dflt company args d) \<noteq> None \<longrightarrow>
      store (MarketReturnImport_run_atomic valid fl dflt company args d) = d)
   \<and> raised (SalesImport_run_atomic valid dflt company args d) = raised (SalesImport_body valid dflt company args d)
   \<and> raised (MarketReturnImport_run_atomic valid fl dflt company args d)
       = raised (MarketReturnImport_body valid fl dflt company args d)"
  by (auto simp add: SalesImport_run_atomic_def MarketReturnImport_run_atomic_def
      transaction_atomic_def Let_def split: option.splits)

theorem failure_rolls_back_witness:
  "raised (SalesImport_body no_constraints defaults_zero ''T'' january db_unmatched) = Some IndexError
   \<and> Sales_tbl (store (SalesImport_body no_constraints defaults_zero ''T'' january db_unmatched)) = []
   \<and> Sales_tbl db_unmatched = [old_sale]
   \<and> raised (SalesImport_run_atomic no_constraints defaults_zero ''T'' january db_unmatched) = Some IndexError
   \<and> store (SalesImport_run_atomic no_constraints defaults_zero ''T'' january db_unmatched) = db_unmatched
   \<and> raised (SalesImport_body unique_ledger defaults_zero ''T'' january db_key_clash) = Some IntegrityError
   \<and> Sales_tbl (store (SalesImport_body unique_ledger defaults_zero ''T'' january db_key_clash))
       = [february_sale]
   \<and> Sales_tbl db_key_clash = [old_sale, february_sale]
   \<and> raised (SalesImport_run_atomic unique_ledger defaults_zero ''T'' january db_key_clash)
       = Some IntegrityError
   \<and> store (SalesImport_run_atomic unique_ledger defaults_zero ''T'' january db_key_clash) = db_key_clash
   \<and> raised (MarketReturnImport_run_atomic no_constraints exact_txval defaults_zero ''T'' january db_zero_division)
       = Some ZeroDivisionError
   \<and> store (MarketReturnImport_run_atomic no_constraints exact_txval defaults_zero ''T'' january db_zero_division)
       = db_zero_division"
proof -
  have b: "raised (SalesImport_body no_constraints defaults_zero ''T'' january db_unmatched) = Some IndexError"
    by code_simp
  have s: "Sales_tbl (store (SalesImport_body no_constraints defaults_zero ''T'' january db_unmatched)) = []"
    by code_simp
  have o: "Sales_tbl db_unmatched = [old_sale]"
    by (simp add: db_unmatched_def)
  have c: "raised (SalesImport_body unique_ledger defaults_zero ''T'' january db_key_clash) = Some IntegrityError"
    by code_simp
  have t: "Sales_tbl (store (SalesImport_body unique_ledger defaults_zero ''T'' january db_key_clash))
       = [february_sale]"
    by code_simp
  have k: "Sales_tbl db_key_clash = [old_sale, february_sale]"
    by (simp add: db_key_clash_def)
  have m: "raised (MarketReturnImport_body no_constraints exact_txval defaults_zero ''T'' january db_zero_division)
             = Some ZeroDivisionError"
    by code_simp
  from failure_rolls_back [of no_constraints defaults_zero "''T''" january db_unmatched exact_txval]
    failure_rolls_back [of unique_ledger defaults_zero "''T''" january db_key_clash exact_txval]
    failure_rolls_back [of no_constraints defaults_zero "''T''" january db_zero_division exact_txval]
    b s o c t k m
  show ?thesis by simp
qed

text \<open>
  Claim C5. The inventory-side return rows are processed in ascending inventory amount
  and the register-side return rows in ascending register amount; when the matching
  loop goes through, the register rows of a (date, original invoice) key have received,
  in the order in which they were processed, the first credit notes of that key's queue,
  in queue order: each row got the oldest credit note not yet consumed. The queue holds
  the credit notes of the key in the order of their first occurrence among the sorted
  inventory rows. The witness is the example of the specification: register amounts
  10, 20, 30 and credit notes CN1 (5), CN2 (15), CN3 (40) are paired CN1 with 10, CN2
  with 20, CN3 with 30.
\<close>

theorem return_matching_fifo:
  assumes "match_loop (salesreturn_objs company args d) (date_original_inum_to_cn company args d)
             = (out, Inr objs')"
  shows "sorted (map ig_inv_amt (salesreturn_inventory_objs company args d))
       \<and> sorted (map sr_amt (salesreturn_objs company args d))
       \<and> received k (salesreturn_objs company args d) objs'
           = take (length (filter (\<lambda>obj. (sr_date obj, sr_inum obj) = k)
                             (salesreturn_objs company args d)))
               (first_occurrences (map ig_credit_note_no
                  (filter (\<lambda>inv. (ig_date inv, ig_original_invoice_no inv) = k)
                     (salesreturn_inventory_objs company args d))))"
  using match_loop_received [OF assms, of k]
  by (simp add: sorted_salesreturn_objs sorted_salesreturn_inventory_objs
      date_original_inum_to_cn_eq)

theorem return_matching_fifo_witness:
  "match_loop (salesreturn_objs ''T'' january db_fifo) (date_original_inum_to_cn ''T'' january db_fifo)
     = ([], Inr [(register_row ''salesreturn'' ''CN1'' 5 10)\<lparr>sr_roundoff := - 0\<rparr>,
                 (register_row ''salesreturn'' ''CN2'' 5 20)\<lparr>sr_roundoff := - 0\<rparr>,
                 (register_row ''salesreturn'' ''CN3'' 5 30)\<lparr>sr_roundoff := - 0\<rparr>])
   \<and> map sr_amt (salesreturn_objs ''T'' january db_fifo) = [10, 20, 30]
   \<and> map (\<lambda>inv. (ig_credit_note_no inv, ig_inv_amt inv)) (salesreturn_inventory_objs ''T'' january db_fifo)
       = [(''CN1'', 5), (''CN2'', 15), (''CN3'', 40)]
   \<and> received (5, ''INV1'') (salesreturn_objs ''T'' january db_fifo)
        [(register_row ''salesreturn'' ''CN1'' 5 10)\<lparr>sr_roundoff := - 0\<rparr>,
         (register_row ''salesreturn'' ''CN2'' 5 20)\<lparr>sr_roundoff := - 0\<rparr>,
         (register_row ''salesreturn'' ''CN3'' 5 30)\<lparr>sr_roundoff := - 0\<rparr>]
       = [''CN1'', ''CN2'', ''CN3'']
   \<and> map (\<lambda>s. (s_inum s, s_amt s))
         (Sales_tbl (store (SalesImport_run_atomic no_constraints defaults_zero ''T'' january db_fifo)))
       = [(''CN1'', - 10), (''CN2'', - 20), (''CN3'', - 30)]"
proof -
  have m: "match_loop (salesreturn_objs ''T'' january db_fifo) (date_original_inum_to_cn ''T'' january db_fifo)
     = ([], Inr [(register_row ''salesreturn'' ''CN1'' 5 10)\<lparr>sr_roundoff := - 0\<rparr>,
                 (register_row ''salesreturn'' ''CN2'' 5 20)\<lparr>sr_roundoff := - 0\<rparr>,
                 (register_row ''salesreturn'' ''CN3'' 5 30)\<lparr>sr_roundoff := - 0\<rparr>])"
    by code_simp
  have a: "map sr_amt (salesreturn_objs ''T'' january db_fifo) = [10, 20, 30]"
    by code_simp
  have b: "map (\<lambda>inv. (ig_credit_note_no inv, ig_inv_amt inv)) (salesreturn_inventory_objs ''T'' january db_fifo)
       = [(''CN1'', 5), (''CN2'', 15), (''CN3'', 40)]"
    by code_simp
  have q: "take (length (filter (\<lambda>obj. (sr_date obj, sr_inum obj) = (5, ''INV1''))
                             (salesreturn_objs ''T'' january db_fifo)))
               (first_occurrences (map ig_credit_note_no
                  (filter (\<lambda>inv. (ig_date inv, ig_original_invoice_no inv) = (5, ''INV1''))
                     (salesreturn_inventory_objs ''T'' january db_fifo))))
            = [''CN1'', ''CN2'', ''CN3'']"
    by code_simp
  have r: "map (\<lambda>s. (s_inum s, s_amt s))
         (Sales_tbl (store (SalesImport_run_atomic no_constraints defaults_zero ''T'' january db_fifo)))
       = [(''CN1'', - 10), (''CN2'', - 20), (''CN3'', - 30)]"
    by code_simp
  from return_matching_fifo [OF m, of "(5, ''INV1'')"] q
  have "received (5, ''INV1'') (salesreturn_objs ''T'' january db_fifo)
        [(register_row ''salesreturn'' ''CN1'' 5 10)\<lparr>sr_roundoff := - 0\<rparr>,
         (register_row ''salesreturn'' ''CN2'' 5 20)\<lparr>sr_roundoff := - 0\<rparr>,
         (register_row ''salesreturn'' ''CN3'' 5 30)\<lparr>sr_roundoff := - 0\<rparr>]
       = [''CN1'', ''CN2'', ''CN3'']"
    by simp
  with m a b r show ?thesis by simp
qed

text \<open>
  Claim C10. The queue of a (date, original invoice number) key holds each credit-note
  number at most once: it is the list of the credit notes of the inventory-side return
  rows of that key, in the order of their first occurrence, so of several line items of
  one credit note only the first appends an entry. Hence the register-side return rows of
  one key receive pairwise different credit notes.
\<close>

theorem credit_note_queued_once:
  "distinct (date_original_inum_to_cn company args d k)
   \<and> date_original_inum_to_cn company args d k =
       first_occurrences (map ig_credit_note_no
         (filter (\<lambda>inv. (ig_date inv, ig_original_invoice_no inv) = k)
            (salesreturn_inventory_objs company args d)))
   \<and> (match_loop (salesreturn_objs company args d) (date_original_inum_to_cn company args d)
         = (out, Inr objs')
       \<longrightarrow> distinct (received k (salesreturn_objs company args d) objs'))"
proof (intro conjI impI)
  show "distinct (date_original_inum_to_cn company args d k)"
    by (rule date_original_inum_to_cn_distinct)
  show "date_original_inum_to_cn company args d k =
       first_occurrences (map ig_credit_note_no
         (filter (\<lambda>inv. (ig_date inv, ig_original_invoice_no inv) = k)
            (salesreturn_inventory_objs company args d)))"
    by (rule date_original_inum_to_cn_eq)
  assume "match_loop (salesreturn_objs company args d) (date_original_inum_to_cn company args d)
         = (out, Inr objs')"
  from match_loop_received [OF this, of k]
  show "distinct (received k (salesreturn_objs company args d) objs')"
    by (simp add: date_original_inum_to_cn_distinct)
qed

theorem credit_note_queued_once_witness:
  "map ig_credit_note_no (salesreturn_inventory_objs ''T'' january db_credit_note_lines)
     = [''CN1'', ''CN1'', ''CN2'']
   \<and> date_original_inum_to_cn ''T'' january db_credit_note_lines (5, ''INV1'') = [''CN1'', ''CN2'']
   \<and> match_loop (salesreturn_objs ''T'' january db_credit_note_lines)
        (date_original_inum_to_cn ''T'' january db_credit_note_lines)
       = ([], Inr [(register_row ''salesreturn'' ''CN1'' 5 10)\<lparr>sr_roundoff := - 0\<rparr>,
                   (register_row ''salesreturn'' ''CN2'' 5 20)\<lparr>sr_roundoff := - 0\<rparr>])
   \<and> distinct (received (5, ''INV1'') (salesreturn_objs ''T'' january db_credit_note_lines)
        [(register_row ''salesreturn'' ''CN1'' 5 10)\<lparr>sr_roundoff := - 0\<rparr>,
         (register_row ''salesreturn'' ''CN2'' 5 20)\<lparr>sr_roundoff := - 0\<rparr>])"
proof -
  have a: "map ig_credit_note_no (salesreturn_inventory_objs ''T'' january db_credit_note_lines)
     = [''CN1'', ''CN1'', ''CN2'']"
    by code_simp
  have q: "date_original_inum_to_cn ''T'' january db_credit_note_lines (5, ''INV1'') = [''CN1'', ''CN2'']"
    by code_simp
  have m: "match_loop (salesreturn_objs ''T'' january db_credit_note_lines)
        (date_original_inum_to_cn ''T'' january db_credit_note_lines)
       = ([], Inr [(register_row ''salesreturn'' ''CN1'' 5 10)\<lparr>sr_roundoff := - 0\<rparr>,
                   (register_row ''salesreturn'' ''CN2'' 5 20)\<lparr>sr_roundoff := - 0\<rparr>])"
    by code_simp
  from credit_note_queued_once [of "''T''" january db_credit_note_lines "(5, ''INV1'')" "[]"
      "[(register_row ''salesreturn'' ''CN1'' 5 10)\<lparr>sr_roundoff := - 0\<rparr>,
        (register_row ''salesreturn'' ''CN2'' 5 20)\<lparr>sr_roundoff := - 0\<rparr>]"] m
  have "distinct (received (5, ''INV1'') (salesreturn_objs ''T'' january db_credit_note_lines)
        [(register_row ''salesreturn'' ''CN1'' 5 10)\<lparr>sr_roundoff := - 0\<rparr>,
         (register_row ''salesreturn'' ''CN2'' 5 20)\<lparr>sr_roundoff := - 0\<rparr>])"
    by blast
  with a q m show ?thesis by blast
qed

text \<open>
  Claim C4. When a run of \<^verbatim>\<open>SalesImport\<close> goes through, the ledger is the ledger left by
  the delete followed by the new entries, and the first of the new entries are, one
  for one and in order, those of the sales rows and of the return rows (in ascending
  amount) of the register in the date range: each has amount \<open>- A\<close>, discount \<open>- D\<close>
  (the sum of the five discount fields), roundoff \<open>R\<close> for a sale and \<open>- R\<close> for a
  return, TDS \<open>- T\<close> and TCS \<open>C\<close>.
\<close>

theorem sign_convention:
  assumes "raised (SalesImport_run_atomic valid dflt company args d) = None"
  shows "\<exists>d1 ms. SalesImport_delete_before_insert company args d = Inr d1
     \<and> Sales_tbl (store (SalesImport_run_atomic valid dflt company args d)) = Sales_tbl d1 @ ms
     \<and> list_all2
         (\<lambda>qs e. s_amt e = - sr_amt qs
            \<and> s_discount e = - (sr_btpr qs + sr_outpyt qs + sr_ushop qs + sr_pecom qs + sr_other_discount qs)
            \<and> s_roundoff e = (if sr_type qs = ''salesreturn'' then - sr_roundoff qs else sr_roundoff qs)
            \<and> s_tds e = - sr_tds qs
            \<and> s_tcs e = sr_tcs qs)
         (sales_objs company args d @ salesreturn_objs company args d)
         (take (length (sales_objs company args d @ salesreturn_objs company args d)) ms)"
proof -
  let ?R = "\<lambda>qs e. s_amt e = - sr_amt qs
            \<and> s_discount e = - (sr_btpr qs + sr_outpyt qs + sr_ushop qs + sr_pecom qs + sr_other_discount qs)
            \<and> s_roundoff e = (if sr_type qs = ''salesreturn'' then - sr_roundoff qs else sr_roundoff qs)
            \<and> s_tds e = - sr_tds qs
            \<and> s_tcs e = sr_tcs qs"
  let ?cs = "claimservice_objs dflt company (claimservice_inventory_objs company args d)"
  from assms obtain sr_objs ms md mi d1 where
    m: "match_loop (salesreturn_objs company args d) (date_original_inum_to_cn company args d) = ([], Inr sr_objs)"
    and t: "SalesImport_transform dflt company args d = ([], Inr (ms, md, mi))"
    and d1: "SalesImport_delete_before_insert company args d = Inr d1"
    and st: "store (SalesImport_run_atomic valid dflt company args d) =
           d1\<lparr>Sales_tbl := Sales_tbl d1 @ ms, Discount_tbl := Discount_tbl d1 @ md,
              Inventory_tbl := Inventory_tbl d1 @ mi\<rparr>"
    by (rule SalesImport_run_atomic_ok)
  let ?ms = "map (model_sales_obj company) (sales_objs company args d @ sr_objs @ ?cs)"
  have tbl: "Sales_tbl (store (SalesImport_run_atomic valid dflt company args d)) = Sales_tbl d1 @ ?ms"
    using t SalesImport_transform_Inr [OF m, of dflt] st by simp
  have len: "length sr_objs = length (salesreturn_objs company args d)"
    using m by (rule match_loop_length)
  have s: "list_all2 ?R (sales_objs company args d) (map (model_sales_obj company) (sales_objs company args d))"
    by (auto simp add: list_all2_conv_all_nth model_sales_obj_def dest: sales_objs_type [OF nth_mem])
  have f: "list_all2 (\<lambda>obj obj'. \<exists>inum. obj' = obj\<lparr>sr_roundoff := - sr_roundoff obj, sr_inum := inum\<rparr>)
          (salesreturn_objs company args d) sr_objs"
    using m by (rule match_loop_fields)
  have r: "list_all2 ?R (salesreturn_objs company args d) (map (model_sales_obj company) sr_objs)"
    unfolding list_all2_map2
  proof (rule list.rel_mono_strong [OF f])
    fix obj obj'
    assume "obj \<in> set (salesreturn_objs company args d)"
      and "\<exists>inum. obj' = obj\<lparr>sr_roundoff := - sr_roundoff obj, sr_inum := inum\<rparr>"
    then obtain inum where ty: "sr_type obj = ''salesreturn''"
      and eq: "obj' = obj\<lparr>sr_roundoff := - sr_roundoff obj, sr_inum := inum\<rparr>"
      by (auto dest: salesreturn_objs_type)
    show "?R obj (model_sales_obj company obj')"
      unfolding eq using ty by (simp add: model_sales_obj_def)
  qed
  have "take (length (sales_objs company args d @ salesreturn_objs company args d)) ?ms
      = map (model_sales_obj company) (sales_objs company args d) @ map (model_sales_obj company) sr_objs"
    using len by simp
  moreover from s r have "list_all2 ?R (sales_objs company args d @ salesreturn_objs company args d)
      (map (model_sales_obj company) (sales_objs company args d) @ map (model_sales_obj company) sr_objs)"
    by (rule list_all2_appendI)
  ultimately show ?thesis using d1 tbl by simp
qed


theorem sign_convention_witness:
  "raised (SalesImport_run_atomic no_constraints defaults_zero ''T'' january db_signs) = None
   \<and> sales_objs ''T'' january db_signs @ salesreturn_objs ''T'' january db_signs
       = [sale_with_discounts, sale_plain, return_with_roundoff]
   \<and> map (\<lambda>e. (s_inum e, s_amt e, s_discount e, s_roundoff e, s_tds e, s_tcs e))
         (Sales_tbl (store (SalesImport_run_atomic no_constraints defaults_zero ''T'' january db_signs)))
       = [(''S10'', - 100, - 5, 2 / 5, - 2, 1), (''S11'', - 70, 0, 0, 0, 0),
          (''CN9'', - 50, - 1, - (1 / 4), 0, 0)]
   \<and> (\<exists>d1 ms. SalesImport_delete_before_insert ''T'' january db_signs = Inr d1
     \<and> Sales_tbl (store (SalesImport_run_atomic no_constraints defaults_zero ''T'' january db_signs)) = Sales_tbl d1 @ ms
     \<and> list_all2
         (\<lambda>qs e. s_amt e = - sr_amt qs
            \<and> s_discount e = - (sr_btpr qs + sr_outpyt qs + sr_ushop qs + sr_pecom qs + sr_other_discount qs)
            \<and> s_roundoff e = (if sr_type qs = ''salesreturn'' then - sr_roundoff qs else sr_roundoff qs)
            \<and> s_tds e = - sr_tds qs
            \<and> s_tcs e = sr_tcs qs)
         (sales_objs ''T'' january db_signs @ salesreturn_objs ''T'' january db_signs)
         (take (length (sales_objs ''T'' january db_signs @ salesreturn_objs ''T'' january db_signs)) ms))"
proof -
  have ok: "raised (SalesImport_run_atomic no_constraints defaults_zero ''T'' january db_signs) = None"
    by code_simp
  have rows: "sales_objs ''T'' january db_signs @ salesreturn_objs ''T'' january db_signs
       = [sale_with_discounts, sale_plain, return_with_roundoff]"
    by code_simp
  have out: "map (\<lambda>e. (s_inum e, s_amt e, s_discount e, s_roundoff e, s_tds e, s_tcs e))
         (Sales_tbl (store (SalesImport_run_atomic no_constraints defaults_zero ''T'' january db_signs)))
       = [(''S10'', - 100, - 5, 2 / 5, - 2, 1), (''S11'', - 70, 0, 0, 0, 0),
          (''CN9'', - 50, - 1, - (1 / 4), 0, 0)]"
    by code_simp
  from ok rows out sign_convention [OF ok] show ?thesis by blast
qed

text \<open>
  Claim C9. The discount items that \<^verbatim>\<open>SalesImport\<close> inserts are, for every row it
  processes (the sales rows, those without any discount included, the matched return
  rows and the claim-service rows), the discount line items of that row: one item per
  discount subtype whose value is not zero, with the negated value, and none for a zero
  value. The number of items of a row is the number of its non-zero discount fields:
  none when all five are zero, one when exactly one is not.
\<close>

theorem discount_zero_suppression:
  assumes "match_loop (salesreturn_objs company args d) (date_original_inum_to_cn company args d)
             = (out, Inr sr_objs)"
  shows "(\<exists>ms mi. SalesImport_transform dflt company args d
           = (out, Inr (ms,
                concat (map (discount_line_items company)
                  (sales_objs company args d @ sr_objs
                     @ claimservice_objs dflt company (claimservice_inventory_objs company args d))),
                mi)))
    \<and> model_discount_objs_of company qs = discount_line_items company qs
    \<and> length (model_discount_objs_of company qs)
           = length (filter (\<lambda>v. v \<noteq> 0)
               [sr_btpr qs, sr_outpyt qs, sr_ushop qs, sr_pecom qs, sr_other_discount qs])"
proof (intro conjI)
  show "\<exists>ms mi. SalesImport_transform dflt company args d
           = (out, Inr (ms,
                concat (map (discount_line_items company)
                  (sales_objs company args d @ sr_objs
                     @ claimservice_objs dflt company (claimservice_inventory_objs company args d))),
                mi))"
    using SalesImport_transform_Inr [OF assms, of dflt] concat_exclude_zero_discounts [of company "sales_objs company args d"]
    by (simp add: model_discount_objs_of_eq [abs_def])
  show "model_discount_objs_of company qs = discount_line_items company qs"
    by (rule model_discount_objs_of_eq)
  show "length (model_discount_objs_of company qs)
           = length (filter (\<lambda>v. v \<noteq> 0)
               [sr_btpr qs, sr_outpyt qs, sr_ushop qs, sr_pecom qs, sr_other_discount qs])"
    by (simp add: model_discount_objs_of_eq discount_line_items_def)
qed

theorem discount_zero_suppression_witness:
  "match_loop (salesreturn_objs ''T'' january db_signs) (date_original_inum_to_cn ''T'' january db_signs)
     = ([], Inr [return_with_roundoff\<lparr>sr_roundoff := - (1 / 4), sr_inum := ''CN9''\<rparr>])
   \<and> sales_objs ''T'' january db_signs = [sale_with_discounts, sale_plain]
   \<and> model_discount_objs_of ''T'' sale_plain = []
   \<and> Discount_tbl (store (SalesImport_run_atomic no_constraints defaults_zero ''T'' january db_signs))
       = [\<lparr>d_company_id = ''T'', d_bill_id = ''S10'', d_sub_type = ''btpr'', d_amt = - 3\<rparr>,
          \<lparr>d_company_id = ''T'', d_bill_id = ''S10'', d_sub_type = ''other_discount'', d_amt = - 2\<rparr>,
          \<lparr>d_company_id = ''T'', d_bill_id = ''CN9'', d_sub_type = ''pecom'', d_amt = - 1\<rparr>]
   \<and> length (model_discount_objs_of ''T'' sale_with_discounts) = 2
   \<and> length (model_discount_objs_of ''T'' return_with_roundoff) = 1"
proof -
  have m: "match_loop (salesreturn_objs ''T'' january db_signs) (date_original_inum_to_cn ''T'' january db_signs)
     = ([], Inr [return_with_roundoff\<lparr>sr_roundoff := - (1 / 4), sr_inum := ''CN9''\<rparr>])"
    by code_simp
  have s: "sales_objs ''T'' january db_signs = [sale_with_discounts, sale_plain]"
    by code_simp
  have t: "Discount_tbl (store (SalesImport_run_atomic no_constraints defaults_zero ''T'' january db_signs))
       = [\<lparr>d_company_id = ''T'', d_bill_id = ''S10'', d_sub_type = ''btpr'', d_amt = - 3\<rparr>,
          \<lparr>d_company_id = ''T'', d_bill_id = ''S10'', d_sub_type = ''other_discount'', d_amt = - 2\<rparr>,
          \<lparr>d_company_id = ''T'', d_bill_id = ''CN9'', d_sub_type = ''pecom'', d_amt = - 1\<rparr>]"
    by code_simp
  have z: "length (filter (\<lambda>v. v \<noteq> 0)
               [sr_btpr sale_plain, sr_outpyt sale_plain, sr_ushop sale_plain, sr_pecom sale_plain,
                sr_other_discount sale_plain]) = 0"
    by code_simp
  have w: "length (filter (\<lambda>v. v \<noteq> 0)
               [sr_btpr sale_with_discounts, sr_outpyt sale_with_discounts, sr_ushop sale_with_discounts,
                sr_pecom sale_with_discounts, sr_other_discount sale_with_discounts]) = 2"
    by code_simp
  have o: "length (filter (\<lambda>v. v \<noteq> 0)
               [sr_btpr return_with_roundoff, sr_outpyt return_with_roundoff, sr_ushop return_with_roundoff,
                sr_pecom return_with_roundoff, sr_other_discount return_with_roundoff]) = 1"
    by code_simp
  note d = discount_zero_suppression [OF m, of defaults_zero, THEN conjunct2, THEN conjunct2]
  from d [of sale_plain] z
  have 1: "model_discount_objs_of ''T'' sale_plain = []" by (simp only: length_0_conv)
  from d [of sale_with_discounts] w
  have 2: "length (model_discount_objs_of ''T'' sale_with_discounts) = 2" by (simp only:)
  from d [of return_with_roundoff] o
  have 3: "length (model_discount_objs_of ''T'' return_with_roundoff) = 1" by (simp only:)
  from m s t 1 2 3 show ?thesis by blast
qed

text \<open>
  Claim C6. For every invoice number of the claim-service rows of the inventory report
  in the date range, exactly one synthetic register row is built. With \<open>S\<close> the sum of
  the taxable values of the rows of that invoice and tax the sum of
  \<open>2 * txval * rate / 100\<close> over them, the row has TDS \<open>S * 2 / 100\<close>, amount
  \<open>S + tax - TDS\<close> and party \<open>HUL\<close>. When the return matching goes through, the
  ledger entries inserted hold exactly one claim-service entry for that invoice: the one
  of this row, with the amount and the TDS negated. The witness is the example of the
  specification: taxable values 100 and 200 at 5 per cent give amount 300 + 30 - 6 and
  TDS 6.
\<close>

theorem claimservice_aggregation:
  assumes "i \<in> ig_inum ` set (claimservice_inventory_objs company args d)"
    and "match_loop (salesreturn_objs company args d) (date_original_inum_to_cn company args d)
           = (out, Inr sr_objs)"
  shows "\<exists>obj ms md mi.
      filter (\<lambda>obj. sr_inum obj = i)
        (claimservice_objs dflt company (claimservice_inventory_objs company args d)) = [obj]
    \<and> sr_amt obj =
        sum_list (map ig_txval (filter (\<lambda>r. ig_inum r = i) (claimservice_inventory_objs company args d)))
        + sum_list (map (\<lambda>r. 2 * ig_txval r * ig_rt r / 100)
            (filter (\<lambda>r. ig_inum r = i) (claimservice_inventory_objs company args d)))
        - sum_list (map ig_txval (filter (\<lambda>r. ig_inum r = i) (claimservice_inventory_objs company args d)))
            * 2 / 100
    \<and> sr_tds obj =
        sum_list (map ig_txval (filter (\<lambda>r. ig_inum r = i) (claimservice_inventory_objs company args d)))
          * 2 / 100
    \<and> sr_party_id obj = ''HUL''
    \<and> SalesImport_transform dflt company args d = (out, Inr (ms, md, mi))
    \<and> filter (\<lambda>e. s_type e = ''claimservice'' \<and> s_inum e = i) ms = [model_sales_obj company obj]
    \<and> s_amt (model_sales_obj company obj) = - sr_amt obj
    \<and> s_tds (model_sales_obj company obj) = - sr_tds obj
    \<and> s_party_id (model_sales_obj company obj) = ''HUL''"
proof -
  let ?inv = "claimservice_inventory_objs company args d"
  let ?acc = "claimservice_loop ?inv (\<lambda>_. 0, \<lambda>_. 0)"
  let ?cs = "claimservice_objs dflt company ?inv"
  from assms(1) have "length (filter (\<lambda>r. ig_inum r = i) (distinct_inum ?inv)) = 1"
    by (simp add: distinct_inum_count)
  then obtain r where r: "filter (\<lambda>r. ig_inum r = i) (distinct_inum ?inv) = [r]"
    by (auto simp add: length_Suc_conv)
  then have "r \<in> set (filter (\<lambda>r. ig_inum r = i) (distinct_inum ?inv))" by simp
  then have ri: "ig_inum r = i" by simp
  let ?obj = "claimservice_obj dflt company ?acc r"
  have one: "filter (\<lambda>obj. sr_inum obj = i) ?cs = [?obj]"
    by (simp add: claimservice_objs_filter r)
  have amt: "sr_amt ?obj =
        sum_list (map ig_txval (filter (\<lambda>r. ig_inum r = i) ?inv))
        + sum_list (map (\<lambda>r. 2 * ig_txval r * ig_rt r / 100) (filter (\<lambda>r. ig_inum r = i) ?inv))
        - sum_list (map ig_txval (filter (\<lambda>r. ig_inum r = i) ?inv)) * 2 / 100"
    by (simp add: claimservice_obj_def Let_def ri claimservice_loop_fst claimservice_loop_snd TDS_PERCENT_def)
  have tds: "sr_tds ?obj = sum_list (map ig_txval (filter (\<lambda>r. ig_inum r = i) ?inv)) * 2 / 100"
    by (simp add: claimservice_obj_def Let_def ri claimservice_loop_fst TDS_PERCENT_def)
  have party: "sr_party_id ?obj = ''HUL''"
    by (simp add: claimservice_obj_def Let_def)
  let ?ms = "map (model_sales_obj company) (sales_objs company args d @ sr_objs @ ?cs)"
  note t = SalesImport_transform_Inr [OF assms(2), of dflt]
  have sr_ty: "sr_type x = ''salesreturn''" if "x \<in> set sr_objs" for x
  proof -
    from that have "sr_type x \<in> set (map sr_type sr_objs)" by simp
    also have "map sr_type sr_objs = map sr_type (salesreturn_objs company args d)"
      using assms(2) by (rule match_loop_types)
    finally show ?thesis by (auto dest: salesreturn_objs_type)
  qed
  have f0: "filter (\<lambda>e. s_type e = ''claimservice'' \<and> s_inum e = i) ?ms
      = map (model_sales_obj company)
          (filter (\<lambda>x. sr_type x = ''claimservice'' \<and> sr_inum x = i)
             (sales_objs company args d @ sr_objs @ ?cs))"
    by (simp add: filter_map comp_def model_sales_obj_def)
  have f1: "filter (\<lambda>x. sr_type x = ''claimservice'' \<and> sr_inum x = i) (sales_objs company args d) = []"
    by (auto simp add: filter_empty_conv dest: sales_objs_type)
  have f2: "filter (\<lambda>x. sr_type x = ''claimservice'' \<and> sr_inum x = i) sr_objs = []"
    by (auto simp add: filter_empty_conv dest: sr_ty)
  have f3: "filter (\<lambda>x. sr_type x = ''claimservice'' \<and> sr_inum x = i) ?cs
      = filter (\<lambda>obj. sr_inum obj = i) ?cs"
    by (rule filter_cong) (auto dest: claimservice_objs_type)
  have ms: "filter (\<lambda>e. s_type e = ''claimservice'' \<and> s_inum e = i) ?ms = [model_sales_obj company ?obj]"
    unfolding f0 filter_append f1 f2 f3 one by simp
  have neg: "s_amt (model_sales_obj company ?obj) = - sr_amt ?obj"
    "s_tds (model_sales_obj company ?obj) = - sr_tds ?obj"
    "s_party_id (model_sales_obj company ?obj) = ''HUL''"
    by (simp_all add: model_sales_obj_def party)
  show ?thesis
    apply (rule exI [of _ ?obj])
    apply (rule exI [of _ ?ms])
    apply (intro exI conjI)
            apply (rule one)
           apply (rule amt)
          apply (rule tds)
         apply (rule party)
        apply (rule t)
       apply (rule ms)
      apply (rule neg)+
    done
qed


theorem claimservice_aggregation_witness:
  "''I1'' \<in> ig_inum ` set (claimservice_inventory_objs ''T'' january db_claimservice)
   \<and> match_loop (salesreturn_objs ''T'' january db_claimservice)
        (date_original_inum_to_cn ''T'' january db_claimservice) = ([], Inr [])
   \<and> map (\<lambda>r. (ig_inum r, ig_txval r, ig_rt r)) (claimservice_inventory_objs ''T'' january db_claimservice)
       = [(''I1'', 100, 5), (''I2'', 50, 9), (''I1'', 200, 5)]
   \<and> map (\<lambda>obj. (sr_inum obj, sr_amt obj, sr_tds obj, sr_party_id obj))
        (claimservice_objs defaults_zero ''T'' (claimservice_inventory_objs ''T'' january db_claimservice))
       = [(''I1'', 324, 6, ''HUL''), (''I2'', 58, 1, ''HUL'')]
   \<and> map (\<lambda>e. (s_type e, s_inum e, s_amt e, s_tds e, s_party_id e))
        (Sales_tbl (store (SalesImport_run_atomic no_constraints defaults_zero ''T'' january db_claimservice)))
       = [(''claimservice'', ''I1'', - 324, - 6, ''HUL''), (''claimservice'', ''I2'', - 58, - 1, ''HUL'')]
   \<and> (\<exists>obj. filter (\<lambda>obj. sr_inum obj = ''I1'')
        (claimservice_objs defaults_zero ''T'' (claimservice_inventory_objs ''T'' january db_claimservice)) = [obj])"
proof -
  have i: "''I1'' \<in> ig_inum ` set (claimservice_inventory_objs ''T'' january db_claimservice)"
    by code_simp
  have m: "match_loop (salesreturn_objs ''T'' january db_claimservice)
        (date_original_inum_to_cn ''T'' january db_claimservice) = ([], Inr [])"
    by code_simp
  have r: "map (\<lambda>r. (ig_inum r, ig_txval r, ig_rt r)) (claimservice_inventory_objs ''T'' january db_claimservice)
       = [(''I1'', 100, 5), (''I2'', 50, 9), (''I1'', 200, 5)]"
    by code_simp
  have c: "map (\<lambda>obj. (sr_inum obj, sr_amt obj, sr_tds obj, sr_party_id obj))
        (claimservice_objs defaults_zero ''T'' (claimservice_inventory_objs ''T'' january db_claimservice))
       = [(''I1'', 324, 6, ''HUL''), (''I2'', 58, 1, ''HUL'')]"
    by code_simp
  have l: "map (\<lambda>e. (s_type e, s_inum e, s_amt e, s_tds e, s_party_id e))
        (Sales_tbl (store (SalesImport_run_atomic no_constraints defaults_zero ''T'' january db_claimservice)))
       = [(''claimservice'', ''I1'', - 324, - 6, ''HUL''), (''claimservice'', ''I2'', - 58, - 1, ''HUL'')]"
    by code_simp
  from claimservice_aggregation [OF i m, of defaults_zero]
  have "\<exists>obj. filter (\<lambda>obj. sr_inum obj = ''I1'')
        (claimservice_objs defaults_zero ''T'' (claimservice_inventory_objs ''T'' january db_claimservice)) = [obj]"
    by blast
  with i m r c l show ?thesis by blast
qed




text \<open>
  Claim C2. The specification says that running a date-ranged importer twice leaves the
  same rows as running it once, ``by virtue of delete-then-insert''.
  \<^verbatim>\<open>SalesImport.run_atomic\<close> starts with \<^verbatim>\<open>delete_before_insert\<close>;
  \<^verbatim>\<open>MarketReturnImport.run_atomic\<close> never calls its own \<^verbatim>\<open>delete_before_insert\<close>. So
  when a run of \<^verbatim>\<open>MarketReturnImport\<close> has gone through and at least one market return
  has a stock rate, a second run on the store it left deletes nothing: whatever the
  constraints of the tables are, it either raises \<^verbatim>\<open>IntegrityError\<close> or appends its ledger
  entries and at least one inventory line to the rows of the first run. In the witness
  one market return gives one ledger entry and one inventory line after the first run;
  without constraints there are two of each after the second run, and with a unique key
  on the ledger the second run raises.
\<close>

theorem market_return_rerun_duplicates:
  assumes ok: "raised (MarketReturnImport_run_atomic valid float_txval dflt company args d) = None"
    and some: "filter (\<lambda>mr. stock_rt_subquery company d (ds_stock_id mr) \<noteq> None)
                 (market_returns company d) \<noteq> []"
  shows "(raised (MarketReturnImport_run_atomic valid float_txval dflt company args
                   (store (MarketReturnImport_run_atomic valid float_txval dflt company args d)))
            = Some IntegrityError)
       \<or> (raised (MarketReturnImport_run_atomic valid float_txval dflt company args
                   (store (MarketReturnImport_run_atomic valid float_txval dflt company args d))) = None
          \<and> (\<exists>so io. io \<noteq> []
               \<and> Sales_tbl (store (MarketReturnImport_run_atomic valid float_txval dflt company args
                    (store (MarketReturnImport_run_atomic valid float_txval dflt company args d))))
                 = Sales_tbl (store (MarketReturnImport_run_atomic valid float_txval dflt company args d)) @ so
               \<and> Inventory_tbl (store (MarketReturnImport_run_atomic valid float_txval dflt company args
                    (store (MarketReturnImport_run_atomic valid float_txval dflt company args d))))
                 = Inventory_tbl (store (MarketReturnImport_run_atomic valid float_txval dflt company args d))
                     @ io))"
proof -
  let ?r1 = "MarketReturnImport_run_atomic valid float_txval dflt company args d"
  let ?d1 = "store ?r1"
  let ?r2 = "MarketReturnImport_run_atomic valid float_txval dflt company args ?d1"
  from ok obtain out so' io' where
    l: "market_return_loop float_txval dflt company d (market_returns company d) ([], []) = (out, Inr (so', io'))"
    and st: "?d1 = d\<lparr>Sales_tbl := Sales_tbl d @ map snd so', Inventory_tbl := Inventory_tbl d @ io'\<rparr>"
    by (rule MarketReturnImport_run_atomic_ok)
  have stock: "stock_rt_subquery company ?d1 = stock_rt_subquery company d"
    by (rule ext) (simp add: st stock_rt_subquery_def)
  have mrs: "market_returns company ?d1 = market_returns company d"
    by (simp add: st market_returns_def)
  from l have "\<exists>out so' io'. market_return_loop float_txval dflt company d (market_returns company d) ([], [])
      = (out, Inr (so', io'))" by blast
  then have "\<exists>out so' io'. market_return_loop float_txval dflt company ?d1 (market_returns company ?d1) ([], [])
      = (out, Inr (so', io'))"
    unfolding market_return_loop_succeeds_iff stock mrs .
  then obtain out2 so2 io2 where
    l2: "market_return_loop float_txval dflt company ?d1 (market_returns company ?d1) ([], [])
           = (out2, Inr (so2, io2))"
    by blast
  from market_return_loop_inventory [OF l2]
  have "length io2 = length (filter (\<lambda>mr. stock_rt_subquery company ?d1 (ds_stock_id mr) \<noteq> None)
          (market_returns company ?d1))"
    by (auto dest: list_all2_lengthD)
  with some have io2: "io2 \<noteq> []"
    unfolding stock mrs by auto
  show ?thesis
  proof (cases "raised ?r2 = None")
    case True
    then have "store ?r2 = ?d1\<lparr>Sales_tbl := Sales_tbl ?d1 @ map snd so2,
        Inventory_tbl := Inventory_tbl ?d1 @ io2\<rparr>"
      unfolding MarketReturnImport_run_atomic_Inr [OF l2, of valid args] by (simp split: if_splits)
    then have "Sales_tbl (store ?r2) = Sales_tbl ?d1 @ map snd so2"
      and "Inventory_tbl (store ?r2) = Inventory_tbl ?d1 @ io2"
      by simp_all
    with True io2 show ?thesis by blast
  next
    case False
    then have "raised ?r2 = Some IntegrityError"
      unfolding MarketReturnImport_run_atomic_Inr [OF l2, of valid args] by (simp split: if_splits)
    then show ?thesis by blast
  qed
qed

theorem market_return_rerun_duplicates_witness:
  "raised (MarketReturnImport_run_atomic no_constraints exact_txval defaults_zero ''T'' january db_market) = None
   \<and> filter (\<lambda>mr. stock_rt_subquery ''T'' db_market (ds_stock_id mr) \<noteq> None)
        (market_returns ''T'' db_market) \<noteq> []
   \<and> map (\<lambda>e. (s_type e, s_inum e, s_date e, s_amt e))
        (Sales_tbl (store (MarketReturnImport_run_atomic no_constraints exact_txval defaults_zero ''T'' january
          db_market)))
       = [(''damage'', ''M1'', 5, 110)]
   \<and> map (\<lambda>x. (i_bill_id x, i_txval x))
        (Inventory_tbl (store (MarketReturnImport_run_atomic no_constraints exact_txval defaults_zero ''T''
          january db_market)))
       = [(''M1'', 100)]
   \<and> raised (MarketReturnImport_run_atomic no_constraints exact_txval defaults_zero ''T'' january
          (store (MarketReturnImport_run_atomic no_constraints exact_txval defaults_zero ''T'' january
             db_market))) = None
   \<and> map (\<lambda>e. (s_type e, s_inum e, s_date e, s_amt e))
        (Sales_tbl (store (MarketReturnImport_run_atomic no_constraints exact_txval defaults_zero ''T'' january
          (store (MarketReturnImport_run_atomic no_constraints exact_txval defaults_zero ''T'' january
             db_market)))))
       = [(''damage'', ''M1'', 5, 110), (''damage'', ''M1'', 5, 110)]
   \<and> map (\<lambda>x. (i_bill_id x, i_txval x))
        (Inventory_tbl (store (MarketReturnImport_run_atomic no_constraints exact_txval defaults_zero ''T''
          january
          (store (MarketReturnImport_run_atomic no_constraints exact_txval defaults_zero ''T'' january
             db_market)))))
       = [(''M1'', 100), (''M1'', 100)]
   \<and> raised (MarketReturnImport_run_atomic unique_ledger exact_txval defaults_zero ''T'' january db_market)
       = None
   \<and> raised (MarketReturnImport_run_atomic unique_ledger exact_txval defaults_zero ''T'' january
          (store (MarketReturnImport_run_atomic unique_ledger exact_txval defaults_zero ''T'' january
             db_market))) = Some IntegrityError
   \<and> (\<exists>so io. io \<noteq> []
        \<and> Sales_tbl (store (MarketReturnImport_run_atomic no_constraints exact_txval defaults_zero ''T''
             january
             (store (MarketReturnImport_run_atomic no_constraints exact_txval defaults_zero ''T'' january
                db_market))))
          = Sales_tbl (store (MarketReturnImport_run_atomic no_constraints exact_txval defaults_zero ''T''
              january db_market)) @ so
        \<and> Inventory_tbl (store (MarketReturnImport_run_atomic no_constraints exact_txval defaults_zero ''T''
             january
             (store (MarketReturnImport_run_atomic no_constraints exact_txval defaults_zero ''T'' january
                db_market))))
          = Inventory_tbl (store (MarketReturnImport_run_atomic no_constraints exact_txval defaults_zero ''T''
              january db_market)) @ io)"
proof -
  let ?r1 = "MarketReturnImport_run_atomic no_constraints exact_txval defaults_zero ''T'' january db_market"
  let ?r2 = "MarketReturnImport_run_atomic no_constraints exact_txval defaults_zero ''T'' january (store ?r1)"
  let ?u1 = "MarketReturnImport_run_atomic unique_ledger exact_txval defaults_zero ''T'' january db_market"
  let ?u2 = "MarketReturnImport_run_atomic unique_ledger exact_txval defaults_zero ''T'' january (store ?u1)"
  have ok: "raised ?r1 = None"
    by code_simp
  have some: "filter (\<lambda>mr. stock_rt_subquery ''T'' db_market (ds_stock_id mr) \<noteq> None)
        (market_returns ''T'' db_market) \<noteq> []"
    by code_simp
  have s1: "map (\<lambda>e. (s_type e, s_inum e, s_date e, s_amt e)) (Sales_tbl (store ?r1))
       = [(''damage'', ''M1'', 5, 110)]"
    by code_simp
  have i1: "map (\<lambda>x. (i_bill_id x, i_txval x)) (Inventory_tbl (store ?r1)) = [(''M1'', 100)]"
    by code_simp
  have ok2: "raised ?r2 = None"
    by code_simp
  have s2: "map (\<lambda>e. (s_type e, s_inum e, s_date e, s_amt e)) (Sales_tbl (store ?r2))
       = [(''damage'', ''M1'', 5, 110), (''damage'', ''M1'', 5, 110)]"
    by code_simp
  have i2: "map (\<lambda>x. (i_bill_id x, i_txval x)) (Inventory_tbl (store ?r2))
       = [(''M1'', 100), (''M1'', 100)]"
    by code_simp
  have u1: "raised ?u1 = None"
    by code_simp
  have u2: "raised ?u2 = Some IntegrityError"
    by code_simp
  from market_return_rerun_duplicates [OF ok some] ok2
  have dup: "\<exists>so io. io \<noteq> [] \<and> Sales_tbl (store ?r2) = Sales_tbl (store ?r1) @ so
      \<and> Inventory_tbl (store ?r2) = Inventory_tbl (store ?r1) @ io"
    by simp
  from ok some s1 i1 ok2 s2 i2 u1 u2 dup show ?thesis by blast
qed

text \<open>
  Claim C3. The specification says that a date-ranged importer reads only the report
  rows whose date lies in the range. \<^verbatim>\<open>SalesImport\<close> filters both reports by the range
  (lemma \<open>SalesImport_transform_in_range\<close>); \<^verbatim>\<open>MarketReturnImport.run_atomic\<close> does not
  use its \<^verbatim>\<open>args\<close> at all: its result is the same for every range, and run for January
  (days 1 to 31) on a report that holds one market return of day 50 it inserts the
  ledger entry and the inventory line of that return.
\<close>

theorem market_return_ignores_date_range:
  "MarketReturnImport_run_atomic valid float_txval dflt company args d
     = MarketReturnImport_run_atomic valid float_txval dflt company args' d
   \<and> map ds_date (market_returns ''T'' db_market_february) = [50]
   \<and> (fromd january, tod january) = (1, 31)
   \<and> map (\<lambda>e. (s_type e, s_inum e, s_date e, s_amt e))
        (Sales_tbl (store (MarketReturnImport_run_atomic no_constraints exact_txval defaults_zero ''T'' january
           db_market_february)))
       = [(''damage'', ''M2'', 50, 110)]
   \<and> map (\<lambda>x. (i_bill_id x, i_txval x))
        (Inventory_tbl (store (MarketReturnImport_run_atomic no_constraints exact_txval defaults_zero ''T'' january
           db_market_february)))
       = [(''M2'', 100)]"
proof -
  have g: "MarketReturnImport_run_atomic valid float_txval dflt company args d
     = MarketReturnImport_run_atomic valid float_txval dflt company args' d"
    by (simp add: MarketReturnImport_run_atomic_def transaction_atomic_def MarketReturnImport_body_def)
  have 1: "map ds_date (market_returns ''T'' db_market_february) = [50]" by code_simp
  have 2: "(fromd january, tod january) = (1, 31)" by code_simp
  have 3: "map (\<lambda>e. (s_type e, s_inum e, s_date e, s_amt e))
        (Sales_tbl (store (MarketReturnImport_run_atomic no_constraints exact_txval defaults_zero ''T'' january
           db_market_february)))
       = [(''damage'', ''M2'', 50, 110)]"
    by code_simp
  have 4: "map (\<lambda>x. (i_bill_id x, i_txval x))
        (Inventory_tbl (store (MarketReturnImport_run_atomic no_constraints exact_txval defaults_zero ''T'' january
           db_market_february)))
       = [(''M2'', 100)]"
    by code_simp
  from g 1 2 3 4 show ?thesis by blast
qed

end
